theory Spec2Isabelle
  imports Complex_Main
begin

section \<open>Data model (src/types/poseTypes.ts)\<close>

text \<open>
  A JavaScript \<^verbatim>\<open>number\<close> is modelled as a real: every finite double is a real, and
  comparison of finite doubles is comparison of reals. The model has no NaN and no
  infinities; where the source divides by a value that can be zero, the model writes out
  what IEEE arithmetic returns there. The arithmetic of the geometry and of the smoother is
  exact in the model; the arithmetic of the comparator, whose result is rounded to an
  integer, is rounded to binary64 operation by operation, as the program performs it.
\<close>

type_synonym number = real

text \<open>
  The functions of the geometry kernel take any object with fields \<^verbatim>\<open>x\<close> and \<^verbatim>\<open>y\<close>
  (\<^verbatim>\<open>{ x: number; y: number }\<close>); a \<^verbatim>\<open>Landmark\<close> is such an object with more fields.
  An optional field (\<^verbatim>\<open>z?: number\<close>) is an option.
\<close>

record Point =
  x :: number
  y :: number

record Landmark = Point +
  name :: string
  z :: "number option"
  confidence :: number
  isVisible :: bool

text \<open>The enum \<^verbatim>\<open>KeypointName\<close>: seventeen string constants.\<close>

definition NOSE :: string where "NOSE = ''nose''"
definition LEFT_EYE :: string where "LEFT_EYE = ''left_eye''"
definition RIGHT_EYE :: string where "RIGHT_EYE = ''right_eye''"
definition LEFT_EAR :: string where "LEFT_EAR = ''left_ear''"
definition RIGHT_EAR :: string where "RIGHT_EAR = ''right_ear''"
definition LEFT_SHOULDER :: string where "LEFT_SHOULDER = ''left_shoulder''"
definition RIGHT_SHOULDER :: string where "RIGHT_SHOULDER = ''right_shoulder''"
definition LEFT_ELBOW :: string where "LEFT_ELBOW = ''left_elbow''"
definition RIGHT_ELBOW :: string where "RIGHT_ELBOW = ''right_elbow''"
definition LEFT_WRIST :: string where "LEFT_WRIST = ''left_wrist''"
definition RIGHT_WRIST :: string where "RIGHT_WRIST = ''right_wrist''"
definition LEFT_HIP :: string where "LEFT_HIP = ''left_hip''"
definition RIGHT_HIP :: string where "RIGHT_HIP = ''right_hip''"
definition LEFT_KNEE :: string where "LEFT_KNEE = ''left_knee''"
definition RIGHT_KNEE :: string where "RIGHT_KNEE = ''right_knee''"
definition LEFT_ANKLE :: string where "LEFT_ANKLE = ''left_ankle''"
definition RIGHT_ANKLE :: string where "RIGHT_ANKLE = ''right_ankle''"

text \<open>
  The interface \<^verbatim>\<open>JointAngles\<close> has sixteen optional properties. Its keys are a
  datatype (one constructor per property, in the order of the interface) and an object of
  the interface is a map from keys to numbers: a property that is not set reads as
  \<^verbatim>\<open>undefined\<close>, here \<open>None\<close>.
\<close>

datatype JointKey =
    LeftShoulder | RightShoulder | LeftElbow | RightElbow | LeftWrist | RightWrist
  | LeftHip | RightHip | Spine
  | LeftKnee | RightKnee | LeftAnkle | RightAnkle
  | Neck | LeftArmpit | RightArmpit

type_synonym JointAngles = "JointKey \<rightharpoonup> number"

definition jointKeys :: "JointKey list" where
  "jointKeys =
     [LeftShoulder, RightShoulder, LeftElbow, RightElbow, LeftWrist, RightWrist,
      LeftHip, RightHip, Spine,
      LeftKnee, RightKnee, LeftAnkle, RightAnkle,
      Neck, LeftArmpit, RightArmpit]"

text \<open>
  \<^verbatim>\<open>Object.keys(o)\<close>: the keys of the properties that \<open>o\<close> has. JavaScript lists
  them in the order of their insertion, which a map does not record; \<open>Object_keys\<close>
  lists them in the order of the interface. The one use of the list is the loop of
  \<^verbatim>\<open>comparePoseAngles\<close>, and what is proved of that loop is proved for every order
  of the keys (\<open>comparePoseAnglesKeys\<close> below).
\<close>

definition Object_keys :: "JointAngles \<Rightarrow> JointKey list" where
  "Object_keys obj = filter (\<lambda>key. obj key \<noteq> None) jointKeys"

section \<open>Geometric calculations (src/utils/poseProcessing.ts)\<close>

text \<open>
  \<^verbatim>\<open>Math.atan2(y, x)\<close>: the polar angle of the point \<open>(x, y)\<close>, in \<open>(-\<pi>, \<pi>]\<close>, and
  \<open>0\<close> at the origin (the differences of the source are \<open>+0\<close> when two coordinates
  are equal).
\<close>

definition Math_atan2 :: "number \<Rightarrow> number \<Rightarrow> number" where
  "Math_atan2 b a =
     (if 0 < a then arctan (b / a)
      else if a < 0 then (if 0 \<le> b then arctan (b / a) + pi else arctan (b / a) - pi)
      else if 0 < b then pi / 2
      else if b < 0 then - (pi / 2)
      else 0)"

text \<open>\<^verbatim>\<open>Math.round\<close>: the nearest integer, a tie going up.\<close>

definition Math_round :: "number \<Rightarrow> number" where
  "Math_round v = of_int \<lfloor>v + 1 / 2\<rfloor>"

definition calculateAngle ::
  "'a Point_scheme \<Rightarrow> 'b Point_scheme \<Rightarrow> 'c Point_scheme \<Rightarrow> number" where
  "calculateAngle p1 p2 p3 =
     (let radians =
            Math_atan2 (y p3 - y p2) (x p3 - x p2) -
            Math_atan2 (y p1 - y p2) (x p1 - x p2);
          angle = \<bar>(radians * 180) / pi\<bar>;
          angle = (if angle > 180 then 360 - angle else angle)
      in Math_round angle)"

section \<open>Joint angle calculations\<close>

definition getLandmark :: "Landmark list \<Rightarrow> string \<Rightarrow> Landmark option" where
  "getLandmark landmarks nm =
     find (\<lambda>l. name l = nm \<and> isVisible l \<and> confidence l > 0.5) landmarks"

text \<open>
  An object is truthy and \<^verbatim>\<open>undefined\<close> is not, so \<^verbatim>\<open>if (a && b && c)\<close> tests that
  the three landmarks were found; \<open>the\<close> is applied to a landmark only under that test.
\<close>

definition calculateJointAngles :: "Landmark list \<Rightarrow> JointAngles" where
  "calculateJointAngles landmarks =
     (let angles = Map.empty;
          leftShoulder = getLandmark landmarks LEFT_SHOULDER;
          leftElbow = getLandmark landmarks LEFT_ELBOW;
          leftWrist = getLandmark landmarks LEFT_WRIST;
          angles =
            (if leftShoulder \<noteq> None \<and> leftElbow \<noteq> None \<and> leftWrist \<noteq> None
             then angles(LeftElbow \<mapsto>
                    calculateAngle (the leftShoulder) (the leftElbow) (the leftWrist))
             else angles);
          rightShoulder = getLandmark landmarks RIGHT_SHOULDER;
          rightElbow = getLandmark landmarks RIGHT_ELBOW;
          rightWrist = getLandmark landmarks RIGHT_WRIST;
          angles =
            (if rightShoulder \<noteq> None \<and> rightElbow \<noteq> None \<and> rightWrist \<noteq> None
             then angles(RightElbow \<mapsto>
                    calculateAngle (the rightShoulder) (the rightElbow) (the rightWrist))
             else angles);
          leftHip = getLandmark landmarks LEFT_HIP;
          angles =
            (if leftElbow \<noteq> None \<and> leftShoulder \<noteq> None \<and> leftHip \<noteq> None
             then angles(LeftShoulder \<mapsto>
                    calculateAngle (the leftElbow) (the leftShoulder) (the leftHip))
             else angles);
          rightHip = getLandmark landmarks RIGHT_HIP;
          angles =
            (if rightElbow \<noteq> None \<and> rightShoulder \<noteq> None \<and> rightHip \<noteq> None
             then angles(RightShoulder \<mapsto>
                    calculateAngle (the rightElbow) (the rightShoulder) (the rightHip))
             else angles);
          leftKnee = getLandmark landmarks LEFT_KNEE;
          leftAnkle = getLandmark landmarks LEFT_ANKLE;
          angles =
            (if leftHip \<noteq> None \<and> leftKnee \<noteq> None \<and> leftAnkle \<noteq> None
             then angles(LeftKnee \<mapsto>
                    calculateAngle (the leftHip) (the leftKnee) (the leftAnkle))
             else angles);
          rightKnee = getLandmark landmarks RIGHT_KNEE;
          rightAnkle = getLandmark landmarks RIGHT_ANKLE;
          angles =
            (if rightHip \<noteq> None \<and> rightKnee \<noteq> None \<and> rightAnkle \<noteq> None
             then angles(RightKnee \<mapsto>
                    calculateAngle (the rightHip) (the rightKnee) (the rightAnkle))
             else angles);
          angles =
            (if leftShoulder \<noteq> None \<and> leftHip \<noteq> None \<and> leftKnee \<noteq> None
             then angles(LeftHip \<mapsto>
                    calculateAngle (the leftShoulder) (the leftHip) (the leftKnee))
             else angles);
          angles =
            (if rightShoulder \<noteq> None \<and> rightHip \<noteq> None \<and> rightKnee \<noteq> None
             then angles(RightHip \<mapsto>
                    calculateAngle (the rightShoulder) (the rightHip) (the rightKnee))
             else angles);
          angles =
            (if leftShoulder \<noteq> None \<and> rightShoulder \<noteq> None \<and>
                leftHip \<noteq> None \<and> rightHip \<noteq> None
             then
               (let shoulderMid =
                      \<lparr>x = (x (the leftShoulder) + x (the rightShoulder)) / 2,
                       y = (y (the leftShoulder) + y (the rightShoulder)) / 2\<rparr>;
                    hipMid =
                      \<lparr>x = (x (the leftHip) + x (the rightHip)) / 2,
                       y = (y (the leftHip) + y (the rightHip)) / 2\<rparr>;
                    verticalRef = \<lparr>x = x shoulderMid, y = 0\<rparr>
                in angles(Spine \<mapsto> calculateAngle verticalRef shoulderMid hipMid))
             else angles)
      in angles)"

section \<open>Smoothing and filtering\<close>

text \<open>
  The class \<^verbatim>\<open>LandmarkSmoother\<close>: its two private fields, its constructor and its
  methods, each method taking the object and returning it updated.
  \<^verbatim>\<open>previousLandmarks\<close> is a \<^verbatim>\<open>Map<string, Landmark>\<close>.
\<close>

record LandmarkSmoother =
  previousLandmarks :: "string \<rightharpoonup> Landmark"
  alpha :: number

definition new_LandmarkSmoother :: "number \<Rightarrow> LandmarkSmoother" where
  "new_LandmarkSmoother a =
     \<lparr>previousLandmarks = Map.empty, alpha = max 0 (min 1 a)\<rparr>"

text \<open>
  The loop of \<^verbatim>\<open>smooth\<close> over \<^verbatim>\<open>currentLandmarks\<close>: \<open>this\<close> is the smoother
  as the iterations so far have left it and \<open>smoothed\<close> the output pushed so far.
  The spread \<^verbatim>\<open>{ ...current }\<close> is a copy of \<open>current\<close>.
\<close>

fun smooth_loop ::
  "LandmarkSmoother \<Rightarrow> Landmark list \<Rightarrow> Landmark list \<Rightarrow> Landmark list \<times> LandmarkSmoother" where
  "smooth_loop this smoothed [] = (smoothed, this)"
| "smooth_loop this smoothed (current # rest) =
     (case previousLandmarks this (name current) of
        None \<Rightarrow>
          smooth_loop
            (this\<lparr>previousLandmarks := (previousLandmarks this)(name current \<mapsto> current)\<rparr>)
            (smoothed @ [current]) rest
      | Some previous \<Rightarrow>
          (let smoothedLandmark = current
                 \<lparr>x := alpha this * x current + (1 - alpha this) * x previous,
                  y := alpha this * y current + (1 - alpha this) * y previous,
                  z := (if z current \<noteq> None \<and> z previous \<noteq> None
                        then Some (alpha this * the (z current) +
                                   (1 - alpha this) * the (z previous))
                        else z current)\<rparr>
           in smooth_loop
                (this\<lparr>previousLandmarks :=
                        (previousLandmarks this)(name current \<mapsto> smoothedLandmark)\<rparr>)
                (smoothed @ [smoothedLandmark]) rest))"

definition smooth :: "LandmarkSmoother \<Rightarrow> Landmark list \<Rightarrow> Landmark list \<times> LandmarkSmoother" where
  "smooth this currentLandmarks = smooth_loop this [] currentLandmarks"

definition reset :: "LandmarkSmoother \<Rightarrow> LandmarkSmoother" where
  "reset this = this\<lparr>previousLandmarks := Map.empty\<rparr>"

text \<open>
  The module's two variables, \<^verbatim>\<open>smootherInstance\<close> and \<^verbatim>\<open>currentAlpha\<close>.
  \<^verbatim>\<open>smootherInstance\<close> holds a reference to an object, so the model has a store of
  smoother objects: a reference is an index into \<open>heap\<close>, \<^verbatim>\<open>new\<close> appends an object
  to it, and no object is ever removed.
\<close>

record Module =
  heap :: "LandmarkSmoother list"
  smootherInstance :: "nat option"
  currentAlpha :: number

text \<open>The module as it is loaded: \<^verbatim>\<open>null\<close> and \<open>0.5\<close>.\<close>

definition initialModule :: Module where
  "initialModule = \<lparr>heap = [], smootherInstance = None, currentAlpha = 0.5\<rparr>"

text \<open>
  \<open>getSmoother\<close> returns the reference and the module as the call leaves it. (A call
  without an argument is the call with \<open>0.5\<close>.)
\<close>

definition getSmoother :: "number \<Rightarrow> Module \<Rightarrow> nat \<times> Module" where
  "getSmoother a m =
     (if smootherInstance m = None \<or> currentAlpha m \<noteq> a
      then (length (heap m),
            m\<lparr>heap := heap m @ [new_LandmarkSmoother a],
              smootherInstance := Some (length (heap m)),
              currentAlpha := a\<rparr>)
      else (the (smootherInstance m), m))"

record PoseConfig =
  minConfidence :: number
  targetFPS :: number
  enableSmoothing :: bool
  smoothingFactor :: number
  showSkeleton :: bool
  showLandmarks :: bool
  skeletonLineWidth :: number
  landmarkRadius :: number

text \<open>
  \<^verbatim>\<open>smoother.smooth(landmarks)\<close> updates the object that \<open>smoother\<close> refers to, in
  the store.
\<close>

definition applySmoothing :: "Landmark list \<Rightarrow> PoseConfig \<Rightarrow> Module \<Rightarrow> Landmark list \<times> Module" where
  "applySmoothing landmarks config m =
     (if \<not> enableSmoothing config then (landmarks, m)
      else
        (let (smoother, m1) = getSmoother (smoothingFactor config) m;
             (smoothed, this) = smooth (heap m1 ! smoother) landmarks
         in (smoothed, m1\<lparr>heap := (heap m1)[smoother := this]\<rparr>)))"

text \<open>
  The reference held by the module always points into the store; every state reached from
  \<open>initialModule\<close> is of this kind.
\<close>

definition wellFormed :: "Module \<Rightarrow> bool" where
  "wellFormed m =
     (case smootherInstance m of None \<Rightarrow> True | Some r \<Rightarrow> r < length (heap m))"

section \<open>Pose quality analysis\<close>

definition criticalPoints :: "string list" where
  "criticalPoints =
     [NOSE, LEFT_SHOULDER, RIGHT_SHOULDER, LEFT_HIP, RIGHT_HIP, LEFT_KNEE, RIGHT_KNEE]"

definition isPersonFullyVisible :: "Landmark list \<Rightarrow> bool" where
  "isPersonFullyVisible landmarks =
     (let visibleCriticalPoints =
            filter (\<lambda>l. name l \<in> set criticalPoints \<and> isVisible l \<and> confidence l > 0.5)
              landmarks
      in real (length visibleCriticalPoints) \<ge> real (length criticalPoints) * 0.7)"

section \<open>Binary64 arithmetic\<close>

text \<open>
  The comparator rounds its result to an integer, and there the rounding of the arithmetic
  decides the result, so its arithmetic is modelled as the program performs it: every
  operation of the source returns the exact result rounded to the nearest binary64 number,
  a tie going to the even significand. \<open>binary64 v\<close> is that rounding of the real \<open>v\<close>:
  the number is scaled by a power of two to bring 53 bits before the point (fewer for a
  number below \<open>pow2 (-1022)\<close>, where the exponent stays \<open>-1022\<close>), rounded to an
  integer and scaled back.
  The model has no largest number: an operation of the source whose result exceeds the
  binary64 range returns an infinity, and is outside the model.
\<close>

definition pow2 :: "int \<Rightarrow> number" where
  "pow2 k = (if 0 \<le> k then 2 ^ nat k else 1 / 2 ^ nat (- k))"

text \<open>
  The exponent of a positive number: \<open>ilog2 v = e\<close> when \<open>pow2 e \<le> v < pow2 (e + 1)\<close>,
  found by halving or doubling \<open>v\<close> until it lies between 1 and 2.
\<close>

function ilog2 :: "number \<Rightarrow> int" where
  "ilog2 v =
     (if v \<le> 0 then 0
      else if 2 \<le> v then ilog2 (v / 2) + 1
      else if v < 1 then ilog2 (v * 2) - 1
      else 0)"
  by pat_completeness auto
termination
proof (relation "measure (\<lambda>v. nat \<bar>\<lfloor>log 2 v\<rfloor>\<bar>)")
  show "wf (measure (\<lambda>v. nat \<bar>\<lfloor>log 2 v\<rfloor>\<bar>))" by simp
next
  fix v :: real
  assume "\<not> v \<le> 0" and big: "2 \<le> v"
  then have "log 2 (v / 2) = log 2 v - 1" by (simp add: log_divide)
  moreover have "1 \<le> log 2 v" using big by (simp add: le_log_iff)
  ultimately have "\<lfloor>log 2 (v / 2)\<rfloor> = \<lfloor>log 2 v\<rfloor> - 1" "1 \<le> \<lfloor>log 2 v\<rfloor>"
    by (simp_all add: le_floor_iff)
  then have "nat \<bar>\<lfloor>log 2 (v / 2)\<rfloor>\<bar> < nat \<bar>\<lfloor>log 2 v\<rfloor>\<bar>" by linarith
  then show "(v / 2, v) \<in> measure (\<lambda>v. nat \<bar>\<lfloor>log 2 v\<rfloor>\<bar>)" by simp
next
  fix v :: real
  assume pos: "\<not> v \<le> 0" and "\<not> 2 \<le> v" and small: "v < 1"
  then have "log 2 (v * 2) = log 2 v + 1" by (simp add: log_mult)
  moreover have "log 2 v < 0" using pos small by simp
  ultimately have "\<lfloor>log 2 (v * 2)\<rfloor> = \<lfloor>log 2 v\<rfloor> + 1" "\<lfloor>log 2 v\<rfloor> < 0"
    by (simp_all add: floor_less_iff)
  then have "nat \<bar>\<lfloor>log 2 (v * 2)\<rfloor>\<bar> < nat \<bar>\<lfloor>log 2 v\<rfloor>\<bar>" by linarith
  then show "(v * 2, v) \<in> measure (\<lambda>v. nat \<bar>\<lfloor>log 2 v\<rfloor>\<bar>)" by simp
qed

declare ilog2.simps [simp del]

text \<open>The nearest integer, a tie going to the even one.\<close>

definition roundHalfEven :: "number \<Rightarrow> int" where
  "roundHalfEven v =
     (let f = \<lfloor>v\<rfloor>
      in if v - of_int f < 1 / 2 then f
         else if 1 / 2 < v - of_int f then f + 1
         else if even f then f else f + 1)"

definition binary64 :: "number \<Rightarrow> number" where
  "binary64 v =
     (if v = 0 then 0
      else
        (let e = max (ilog2 \<bar>v\<bar>) (- 1022)
         in of_int (roundHalfEven (v * pow2 (52 - e))) * pow2 (e - 52)))"

section \<open>Pose comparison\<close>

text \<open>
  The loop of \<^verbatim>\<open>comparePoseAngles\<close> over \<^verbatim>\<open>angleKeys\<close>, on the pair
  \<open>(matchCount, totalCount)\<close>. The subtractions, the division and the additions to
  \<open>matchCount\<close> are rounded to binary64; \<^verbatim>\<open>Math.abs\<close>, \<^verbatim>\<open>Math.max\<close> and the
  comparisons are exact, and \<open>totalCount\<close> counts in integers. The partial credit divides
  by \<open>tolerance\<close>; the branch is entered with \<open>difference > tolerance\<close>, so for
  \<open>tolerance = 0\<close> the quotient of the source is \<open>+Infinity\<close>, \<open>1 - Infinity\<close> is
  \<open>-Infinity\<close> and \<^verbatim>\<open>Math.max(0, -Infinity)\<close> is \<open>0\<close>.
\<close>

definition partialCredit :: "number \<Rightarrow> number \<Rightarrow> number" where
  "partialCredit difference tolerance =
     (if tolerance = 0 then 0
      else max 0 (binary64 (1 - binary64 (binary64 (difference - tolerance) / tolerance))))"

fun compare_loop ::
  "JointAngles \<Rightarrow> JointAngles \<Rightarrow> number \<Rightarrow> JointKey list \<Rightarrow> number \<times> nat \<Rightarrow> number \<times> nat" where
  "compare_loop detectedAngles referenceAngles tolerance [] (matchCount, totalCount) =
     (matchCount, totalCount)"
| "compare_loop detectedAngles referenceAngles tolerance (key # rest) (matchCount, totalCount) =
     (case referenceAngles key of
        None \<Rightarrow>
          compare_loop detectedAngles referenceAngles tolerance rest (matchCount, totalCount)
      | Some refAngle \<Rightarrow>
          (case detectedAngles key of
             None \<Rightarrow>
               compare_loop detectedAngles referenceAngles tolerance rest
                 (matchCount, totalCount + 1)
           | Some detAngle \<Rightarrow>
               (let difference = \<bar>binary64 (refAngle - detAngle)\<bar>
                in if difference \<le> tolerance
                   then compare_loop detectedAngles referenceAngles tolerance rest
                          (binary64 (matchCount + 1), totalCount + 1)
                   else compare_loop detectedAngles referenceAngles tolerance rest
                          (binary64 (matchCount + partialCredit difference tolerance),
                           totalCount + 1))))"

text \<open>
  The function from its second statement on, for the list \<open>angleKeys\<close> that
  \<^verbatim>\<open>Object.keys(referenceAngles)\<close> has returned: its order is the order in which the
  properties of the reference were inserted, which a map does not record.
\<close>

definition comparePoseAnglesKeys ::
  "JointKey list \<Rightarrow> JointAngles \<Rightarrow> JointAngles \<Rightarrow> number \<Rightarrow> number" where
  "comparePoseAnglesKeys angleKeys detectedAngles referenceAngles tolerance =
     (let (matchCount, totalCount) =
            compare_loop detectedAngles referenceAngles tolerance angleKeys (0, 0)
      in if totalCount > 0
         then Math_round (binary64 (binary64 (matchCount / real totalCount) * 100))
         else 0)"

definition comparePoseAngles :: "JointAngles \<Rightarrow> JointAngles \<Rightarrow> number \<Rightarrow> number" where
  "comparePoseAngles detectedAngles referenceAngles tolerance =
     (let angleKeys = Object_keys referenceAngles
      in comparePoseAnglesKeys angleKeys detectedAngles referenceAngles tolerance)"

text \<open>\<^verbatim>\<open>DEFAULT_POSE_CONFIG\<close> of src/types/poseTypes.ts.\<close>

definition DEFAULT_POSE_CONFIG :: PoseConfig where
  "DEFAULT_POSE_CONFIG =
     \<lparr>minConfidence = 0.5, targetFPS = 30, enableSmoothing = True, smoothingFactor = 0.5,
      showSkeleton = True, showLandmarks = True, skeletonLineWidth = 3, landmarkRadius = 5\<rparr>"

section \<open>Notions used in the statements\<close>

text \<open>
  The landmarks that \<open>calculateJointAngles\<close> requires before it assigns a key, read off
  the conditions of its \<^verbatim>\<open>if\<close> statements, and the keys it has an assignment for.
\<close>

fun definingLandmarks :: "JointKey \<Rightarrow> string list" where
  "definingLandmarks LeftElbow = [LEFT_SHOULDER, LEFT_ELBOW, LEFT_WRIST]"
| "definingLandmarks RightElbow = [RIGHT_SHOULDER, RIGHT_ELBOW, RIGHT_WRIST]"
| "definingLandmarks LeftShoulder = [LEFT_ELBOW, LEFT_SHOULDER, LEFT_HIP]"
| "definingLandmarks RightShoulder = [RIGHT_ELBOW, RIGHT_SHOULDER, RIGHT_HIP]"
| "definingLandmarks LeftKnee = [LEFT_HIP, LEFT_KNEE, LEFT_ANKLE]"
| "definingLandmarks RightKnee = [RIGHT_HIP, RIGHT_KNEE, RIGHT_ANKLE]"
| "definingLandmarks LeftHip = [LEFT_SHOULDER, LEFT_HIP, LEFT_KNEE]"
| "definingLandmarks RightHip = [RIGHT_SHOULDER, RIGHT_HIP, RIGHT_KNEE]"
| "definingLandmarks Spine = [LEFT_SHOULDER, RIGHT_SHOULDER, LEFT_HIP, RIGHT_HIP]"
| "definingLandmarks _ = []"

definition assignedKeys :: "JointKey list" where
  "assignedKeys =
     [LeftElbow, RightElbow, LeftShoulder, RightShoulder, LeftKnee, RightKnee,
      LeftHip, RightHip, Spine]"

text \<open>
  The credit of one joint as the specification of the comparator words it, in exact
  arithmetic: none for a joint that was not detected, full credit within the tolerance,
  and beyond it \<open>max(0, 1 - (diff - t) / t)\<close>. For \<open>t = 0\<close> that quotient is infinite
  in the arithmetic of the program and the credit is \<open>0\<close>. \<open>exactScore\<close> is the score
  that the specification words, in exact arithmetic: \<open>round (100 * credits / count)\<close>.
\<close>

definition jointCredit :: "number option \<Rightarrow> number \<Rightarrow> number \<Rightarrow> number" where
  "jointCredit detected reference t =
     (case detected of
        None \<Rightarrow> 0
      | Some d \<Rightarrow>
          if \<bar>d - reference\<bar> \<le> t then 1
          else if t = 0 then 0
          else max 0 (1 - (\<bar>d - reference\<bar> - t) / t))"

definition exactScore :: "JointAngles \<Rightarrow> JointAngles \<Rightarrow> number \<Rightarrow> number" where
  "exactScore detected reference t =
     (if dom reference = {} then 0
      else Math_round
             (100 * (\<Sum>key\<in>dom reference. jointCredit (detected key) (the (reference key)) t)
                / real (card (dom reference))))"

text \<open>
  The same credit with every operation rounded to binary64, for a joint that was detected;
  the sum of a list of credits, each addition rounded; and the score with the product
  taken before the quotient, as the specification writes the expression, both rounded.
\<close>

definition jointCredit64 :: "number \<Rightarrow> number \<Rightarrow> number \<Rightarrow> number" where
  "jointCredit64 d r t =
     (let diff = \<bar>binary64 (d - r)\<bar>
      in if diff \<le> t then 1
         else if t = 0 then 0
         else max 0 (binary64 (1 - binary64 (binary64 (diff - t) / t))))"

definition sum64 :: "number list \<Rightarrow> number" where
  "sum64 cs = foldl (\<lambda>s c. binary64 (s + c)) 0 cs"

definition productFirstScore64 ::
  "JointKey list \<Rightarrow> JointAngles \<Rightarrow> JointAngles \<Rightarrow> number \<Rightarrow> number" where
  "productFirstScore64 keys detected reference t =
     (if dom reference = {} then 0
      else Math_round (binary64 (binary64
             (100 * sum64 (map (\<lambda>key. jointCredit64 (the (detected key)) (the (reference key)) t)
                             (filter (\<lambda>key. detected key \<noteq> None) keys)))
                / real (card (dom reference)))))"


text \<open>The value that \<open>calculateAngle\<close> hands to \<^verbatim>\<open>Math.round\<close>.\<close>

definition unroundedAngle ::
  "'a Point_scheme \<Rightarrow> 'b Point_scheme \<Rightarrow> 'c Point_scheme \<Rightarrow> number" where
  "unroundedAngle p1 p2 p3 =
     (let radians =
            Math_atan2 (y p3 - y p2) (x p3 - x p2) -
            Math_atan2 (y p1 - y p2) (x p1 - x p2);
          angle = \<bar>(radians * 180) / pi\<bar>
      in (if angle > 180 then 360 - angle else angle))"

text \<open>
  One iteration of the loop of \<open>smooth\<close>, split into the landmark it pushes and the
  smoother it leaves.
\<close>

definition smoothOne :: "LandmarkSmoother \<Rightarrow> Landmark \<Rightarrow> Landmark" where
  "smoothOne this current =
     (case previousLandmarks this (name current) of
        None \<Rightarrow> current
      | Some previous \<Rightarrow> current
          \<lparr>x := alpha this * x current + (1 - alpha this) * x previous,
           y := alpha this * y current + (1 - alpha this) * y previous,
           z := (if z current \<noteq> None \<and> z previous \<noteq> None
                 then Some (alpha this * the (z current) + (1 - alpha this) * the (z previous))
                 else z current)\<rparr>)"

definition remember :: "LandmarkSmoother \<Rightarrow> Landmark \<Rightarrow> LandmarkSmoother" where
  "remember this current =
     this\<lparr>previousLandmarks := (previousLandmarks this)(name current \<mapsto> smoothOne this current)\<rparr>"

section \<open>Concrete frames\<close>

text \<open>A frame with all seventeen keypoints, visible and confident, of a standing person.\<close>

definition standingPose :: "Landmark list" where
  "standingPose =
     [\<lparr>x = 0.50, y = 0.10, name = NOSE, z = None, confidence = 0.9, isVisible = True\<rparr>,
      \<lparr>x = 0.52, y = 0.08, name = LEFT_EYE, z = None, confidence = 0.9, isVisible = True\<rparr>,
      \<lparr>x = 0.48, y = 0.08, name = RIGHT_EYE, z = None, confidence = 0.9, isVisible = True\<rparr>,
      \<lparr>x = 0.55, y = 0.10, name = LEFT_EAR, z = None, confidence = 0.9, isVisible = True\<rparr>,
      \<lparr>x = 0.45, y = 0.10, name = RIGHT_EAR, z = None, confidence = 0.9, isVisible = True\<rparr>,
      \<lparr>x = 0.60, y = 0.25, name = LEFT_SHOULDER, z = None, confidence = 0.9, isVisible = True\<rparr>,
      \<lparr>x = 0.40, y = 0.25, name = RIGHT_SHOULDER, z = None, confidence = 0.9, isVisible = True\<rparr>,
      \<lparr>x = 0.65, y = 0.40, name = LEFT_ELBOW, z = None, confidence = 0.9, isVisible = True\<rparr>,
      \<lparr>x = 0.35, y = 0.40, name = RIGHT_ELBOW, z = None, confidence = 0.9, isVisible = True\<rparr>,
      \<lparr>x = 0.70, y = 0.55, name = LEFT_WRIST, z = None, confidence = 0.9, isVisible = True\<rparr>,
      \<lparr>x = 0.30, y = 0.55, name = RIGHT_WRIST, z = None, confidence = 0.9, isVisible = True\<rparr>,
      \<lparr>x = 0.57, y = 0.55, name = LEFT_HIP, z = None, confidence = 0.9, isVisible = True\<rparr>,
      \<lparr>x = 0.43, y = 0.55, name = RIGHT_HIP, z = None, confidence = 0.9, isVisible = True\<rparr>,
      \<lparr>x = 0.58, y = 0.75, name = LEFT_KNEE, z = None, confidence = 0.9, isVisible = True\<rparr>,
      \<lparr>x = 0.42, y = 0.75, name = RIGHT_KNEE, z = None, confidence = 0.9, isVisible = True\<rparr>,
      \<lparr>x = 0.59, y = 0.95, name = LEFT_ANKLE, z = None, confidence = 0.9, isVisible = True\<rparr>,
      \<lparr>x = 0.41, y = 0.95, name = RIGHT_ANKLE, z = None, confidence = 0.9, isVisible = True\<rparr>]"


definition weakElbowArm :: "Landmark list" where
  "weakElbowArm =
     [\<lparr>x = 0.5, y = 0.2, name = LEFT_SHOULDER, z = None, confidence = 0.9, isVisible = True\<rparr>,
      \<lparr>x = 0.5, y = 0.5, name = LEFT_ELBOW, z = None, confidence = 0.4, isVisible = True\<rparr>,
      \<lparr>x = 0.8, y = 0.5, name = LEFT_WRIST, z = None, confidence = 0.9, isVisible = True\<rparr>]"

text \<open>
  Two frames with the seven critical points: in the first, five of them are visible with
  a confidence above 0.5 (the left knee is below the floor and the right knee is hidden);
  in the second the right hip is at the floor exactly, which leaves four.
\<close>

definition fiveVisible :: "Landmark list" where
  "fiveVisible =
     [\<lparr>x = 0.50, y = 0.10, name = NOSE, z = None, confidence = 0.9, isVisible = True\<rparr>,
      \<lparr>x = 0.60, y = 0.25, name = LEFT_SHOULDER, z = None, confidence = 0.8, isVisible = True\<rparr>,
      \<lparr>x = 0.40, y = 0.25, name = RIGHT_SHOULDER, z = None, confidence = 0.8, isVisible = True\<rparr>,
      \<lparr>x = 0.57, y = 0.55, name = LEFT_HIP, z = None, confidence = 0.7, isVisible = True\<rparr>,
      \<lparr>x = 0.43, y = 0.55, name = RIGHT_HIP, z = None, confidence = 0.6, isVisible = True\<rparr>,
      \<lparr>x = 0.58, y = 0.75, name = LEFT_KNEE, z = None, confidence = 0.4, isVisible = True\<rparr>,
      \<lparr>x = 0.42, y = 0.75, name = RIGHT_KNEE, z = None, confidence = 0.9, isVisible = False\<rparr>]"

definition fourVisible :: "Landmark list" where
  "fourVisible =
     [\<lparr>x = 0.50, y = 0.10, name = NOSE, z = None, confidence = 0.9, isVisible = True\<rparr>,
      \<lparr>x = 0.60, y = 0.25, name = LEFT_SHOULDER, z = None, confidence = 0.8, isVisible = True\<rparr>,
      \<lparr>x = 0.40, y = 0.25, name = RIGHT_SHOULDER, z = None, confidence = 0.8, isVisible = True\<rparr>,
      \<lparr>x = 0.57, y = 0.55, name = LEFT_HIP, z = None, confidence = 0.7, isVisible = True\<rparr>,
      \<lparr>x = 0.43, y = 0.55, name = RIGHT_HIP, z = None, confidence = 0.5, isVisible = True\<rparr>,
      \<lparr>x = 0.58, y = 0.75, name = LEFT_KNEE, z = None, confidence = 0.4, isVisible = True\<rparr>,
      \<lparr>x = 0.42, y = 0.75, name = RIGHT_KNEE, z = None, confidence = 0.9, isVisible = False\<rparr>]"

text \<open>Two successive frames of a nose and a left wrist, the wrist without depth.\<close>

definition firstFrame :: "Landmark list" where
  "firstFrame =
     [\<lparr>x = 0.2, y = 0.4, name = NOSE, z = Some 0.1, confidence = 0.9, isVisible = True\<rparr>,
      \<lparr>x = 0.6, y = 0.6, name = LEFT_WRIST, z = None, confidence = 0.7, isVisible = True\<rparr>]"

definition secondFrame :: "Landmark list" where
  "secondFrame =
     [\<lparr>x = 0.4, y = 0.8, name = NOSE, z = Some 0.3, confidence = 0.8, isVisible = False\<rparr>,
      \<lparr>x = 0.8, y = 0.2, name = LEFT_WRIST, z = Some 0.5, confidence = 0.6, isVisible = True\<rparr>]"

text \<open>A new smoother of factor 0.5 after it has smoothed \<open>firstFrame\<close>.\<close>

definition seenFirstFrame :: LandmarkSmoother where
  "seenFirstFrame = snd (smooth (new_LandmarkSmoother 0.5) firstFrame)"

text \<open>
  Angle maps: a reference of eight joints at 90 degrees and one of ten, and detected maps
  with the left knee alone, at 63 and at 57 degrees.
\<close>

definition kneeAt63 :: JointAngles where
  "kneeAt63 = [LeftKnee \<mapsto> 63]"

definition kneeAt57 :: JointAngles where
  "kneeAt57 = [LeftKnee \<mapsto> 57]"

definition eightJoints :: JointAngles where
  "eightJoints =
     [LeftShoulder \<mapsto> 90, RightShoulder \<mapsto> 90, LeftElbow \<mapsto> 90, RightElbow \<mapsto> 90,
      LeftHip \<mapsto> 90, RightHip \<mapsto> 90, LeftKnee \<mapsto> 90, RightKnee \<mapsto> 90]"

definition tenJoints :: JointAngles where
  "tenJoints =
     [LeftShoulder \<mapsto> 90, RightShoulder \<mapsto> 90, LeftElbow \<mapsto> 90, RightElbow \<mapsto> 90,
      LeftHip \<mapsto> 90, RightHip \<mapsto> 90, LeftKnee \<mapsto> 90, RightKnee \<mapsto> 90,
      Spine \<mapsto> 90, Neck \<mapsto> 90]"

section \<open>Facts about the model\<close>

lemmas KeypointName_defs =
  NOSE_def LEFT_EYE_def RIGHT_EYE_def LEFT_EAR_def RIGHT_EAR_def
  LEFT_SHOULDER_def RIGHT_SHOULDER_def LEFT_ELBOW_def RIGHT_ELBOW_def
  LEFT_WRIST_def RIGHT_WRIST_def LEFT_HIP_def RIGHT_HIP_def
  LEFT_KNEE_def RIGHT_KNEE_def LEFT_ANKLE_def RIGHT_ANKLE_def

subsection \<open>Geometry\<close>

lemma Math_atan2_bounds: "- pi < Math_atan2 b a \<and> Math_atan2 b a \<le> pi"
proof -
  have B: "- (pi/2) < arctan (b / a)" "arctan (b / a) < pi/2"
    using arctan_bounded[of "b / a"] by auto
  show ?thesis
  proof (cases "a < 0")
    case True
    show ?thesis
    proof (cases "0 \<le> b")
      case True
      with \<open>a < 0\<close> have "b / a \<le> 0" by (simp add: divide_nonneg_neg)
      then have "arctan (b / a) \<le> 0" by (simp add: arctan_le_zero_iff)
      moreover have "Math_atan2 b a = arctan (b / a) + pi"
        using True \<open>a < 0\<close> by (simp add: Math_atan2_def)
      ultimately show ?thesis using B pi_gt_zero by linarith
    next
      case False
      with \<open>a < 0\<close> have "0 < b / a" by (simp add: divide_neg_neg)
      then have "0 < arctan (b / a)" by (simp add: zero_less_arctan_iff)
      moreover have "Math_atan2 b a = arctan (b / a) - pi"
        using False \<open>a < 0\<close> by (simp add: Math_atan2_def)
      ultimately show ?thesis using B pi_gt_zero by linarith
    qed
  next
    case False
    then have "Math_atan2 b a = arctan (b / a) \<or> Math_atan2 b a = pi / 2 \<or>
               Math_atan2 b a = - (pi / 2) \<or> Math_atan2 b a = 0"
      by (simp add: Math_atan2_def)
    with B pi_gt_zero show ?thesis by linarith
  qed
qed


lemma Math_round_mono: "u \<le> v \<Longrightarrow> Math_round u \<le> Math_round v"
  by (simp add: Math_round_def floor_mono)

lemma Math_round_of_int: "Math_round (of_int k) = of_int k"
  unfolding Math_round_def by simp


lemma calculateAngle_unroundedAngle: "calculateAngle p1 p2 p3 = Math_round (unroundedAngle p1 p2 p3)"
  by (simp add: calculateAngle_def unroundedAngle_def Let_def)

lemma unroundedAngle_range: "0 \<le> unroundedAngle p1 p2 p3 \<and> unroundedAngle p1 p2 p3 \<le> 180"
proof -
  define r where "r = Math_atan2 (y p3 - y p2) (x p3 - x p2) -
            Math_atan2 (y p1 - y p2) (x p1 - x p2)"
  have "\<bar>r\<bar> < 2 * pi"
    using Math_atan2_bounds[of "y p3 - y p2" "x p3 - x p2"]
          Math_atan2_bounds[of "y p1 - y p2" "x p1 - x p2"]
    unfolding r_def by linarith
  then have "\<bar>r\<bar> * 180 / pi < 360"
    using pi_gt_zero by (simp add: field_simps)
  moreover have "\<bar>(r * 180) / pi\<bar> = \<bar>r\<bar> * 180 / pi"
    using pi_gt_zero by (simp add: abs_mult)
  ultimately have "\<bar>(r * 180) / pi\<bar> < 360" by simp
  then show ?thesis
    unfolding unroundedAngle_def r_def[symmetric] Let_def by auto
qed

lemma calculateAngle_range: "0 \<le> calculateAngle p1 p2 p3 \<and> calculateAngle p1 p2 p3 \<le> 180"
proof -
  have "Math_round 0 \<le> Math_round (unroundedAngle p1 p2 p3)"
       "Math_round (unroundedAngle p1 p2 p3) \<le> Math_round 180"
    using unroundedAngle_range[of p1 p2 p3] by (auto intro: Math_round_mono)
  moreover have "Math_round 0 = 0" "Math_round 180 = 180"
    using Math_round_of_int[of 0] Math_round_of_int[of 180] by simp_all
  ultimately show ?thesis by (simp add: calculateAngle_unroundedAngle)
qed

lemma calculateAngle_sym: "calculateAngle p1 p2 p3 = calculateAngle p3 p2 p1"
proof -
  have "\<bar>((u - v) * 180) / pi\<bar> = \<bar>((v - u) * 180) / pi\<bar>" for u v :: real
  proof -
    have "((u - v) * 180) / pi = - (((v - u) * 180) / pi)" by (simp add: field_simps)
    then show ?thesis by simp
  qed
  then show ?thesis by (simp add: calculateAngle_def Let_def)
qed






subsection \<open>Joint angles\<close>

lemma upd_if:
  "(if c then f(k \<mapsto> v) else f) k' = (if k' = k then (if c then Some v else f k') else f k')"
  by simp

lemma getLandmark_None_iff:
  "getLandmark ls nm = None \<longleftrightarrow>
     (\<forall>l\<in>set ls. name l = nm \<longrightarrow> \<not> isVisible l \<or> confidence l \<le> 0.5)"
  by (auto simp add: getLandmark_def find_None_iff)

lemma calculateJointAngles_assigned:
  "calculateJointAngles ls LeftElbow =
     (if getLandmark ls LEFT_SHOULDER \<noteq> None \<and> getLandmark ls LEFT_ELBOW \<noteq> None \<and>
         getLandmark ls LEFT_WRIST \<noteq> None
      then Some (calculateAngle (the (getLandmark ls LEFT_SHOULDER)) (the (getLandmark ls LEFT_ELBOW))
                  (the (getLandmark ls LEFT_WRIST)))
      else None)"
  "calculateJointAngles ls RightElbow =
     (if getLandmark ls RIGHT_SHOULDER \<noteq> None \<and> getLandmark ls RIGHT_ELBOW \<noteq> None \<and>
         getLandmark ls RIGHT_WRIST \<noteq> None
      then Some (calculateAngle (the (getLandmark ls RIGHT_SHOULDER)) (the (getLandmark ls RIGHT_ELBOW))
                  (the (getLandmark ls RIGHT_WRIST)))
      else None)"
  "calculateJointAngles ls LeftShoulder =
     (if getLandmark ls LEFT_ELBOW \<noteq> None \<and> getLandmark ls LEFT_SHOULDER \<noteq> None \<and>
         getLandmark ls LEFT_HIP \<noteq> None
      then Some (calculateAngle (the (getLandmark ls LEFT_ELBOW)) (the (getLandmark ls LEFT_SHOULDER))
                  (the (getLandmark ls LEFT_HIP)))
      else None)"
  "calculateJointAngles ls RightShoulder =
     (if getLandmark ls RIGHT_ELBOW \<noteq> None \<and> getLandmark ls RIGHT_SHOULDER \<noteq> None \<and>
         getLandmark ls RIGHT_HIP \<noteq> None
      then Some (calculateAngle (the (getLandmark ls RIGHT_ELBOW)) (the (getLandmark ls RIGHT_SHOULDER))
                  (the (getLandmark ls RIGHT_HIP)))
      else None)"
  "calculateJointAngles ls LeftKnee =
     (if getLandmark ls LEFT_HIP \<noteq> None \<and> getLandmark ls LEFT_KNEE \<noteq> None \<and>
         getLandmark ls LEFT_ANKLE \<noteq> None
      then Some (calculateAngle (the (getLandmark ls LEFT_HIP)) (the (getLandmark ls LEFT_KNEE))
                  (the (getLandmark ls LEFT_ANKLE)))
      else None)"
  "calculateJointAngles ls RightKnee =
     (if getLandmark ls RIGHT_HIP \<noteq> None \<and> getLandmark ls RIGHT_KNEE \<noteq> None \<and>
         getLandmark ls RIGHT_ANKLE \<noteq> None
      then Some (calculateAngle (the (getLandmark ls RIGHT_HIP)) (the (getLandmark ls RIGHT_KNEE))
                  (the (getLandmark ls RIGHT_ANKLE)))
      else None)"
  "calculateJointAngles ls LeftHip =
     (if getLandmark ls LEFT_SHOULDER \<noteq> None \<and> getLandmark ls LEFT_HIP \<noteq> None \<and>
         getLandmark ls LEFT_KNEE \<noteq> None
      then Some (calculateAngle (the (getLandmark ls LEFT_SHOULDER)) (the (getLandmark ls LEFT_HIP))
                  (the (getLandmark ls LEFT_KNEE)))
      else None)"
  "calculateJointAngles ls RightHip =
     (if getLandmark ls RIGHT_SHOULDER \<noteq> None \<and> getLandmark ls RIGHT_HIP \<noteq> None \<and>
         getLandmark ls RIGHT_KNEE \<noteq> None
      then Some (calculateAngle (the (getLandmark ls RIGHT_SHOULDER)) (the (getLandmark ls RIGHT_HIP))
                  (the (getLandmark ls RIGHT_KNEE)))
      else None)"
  by (simp_all add: calculateJointAngles_def Let_def upd_if)

lemma calculateJointAngles_Spine:
  "calculateJointAngles ls Spine =
     (if getLandmark ls LEFT_SHOULDER \<noteq> None \<and> getLandmark ls RIGHT_SHOULDER \<noteq> None \<and>
         getLandmark ls LEFT_HIP \<noteq> None \<and> getLandmark ls RIGHT_HIP \<noteq> None
      then Some (calculateAngle
             \<lparr>x = (x (the (getLandmark ls LEFT_SHOULDER)) +
                   x (the (getLandmark ls RIGHT_SHOULDER))) / 2,
              y = 0\<rparr>
             \<lparr>x = (x (the (getLandmark ls LEFT_SHOULDER)) +
                   x (the (getLandmark ls RIGHT_SHOULDER))) / 2,
              y = (y (the (getLandmark ls LEFT_SHOULDER)) +
                   y (the (getLandmark ls RIGHT_SHOULDER))) / 2\<rparr>
             \<lparr>x = (x (the (getLandmark ls LEFT_HIP)) + x (the (getLandmark ls RIGHT_HIP))) / 2,
              y = (y (the (getLandmark ls LEFT_HIP)) + y (the (getLandmark ls RIGHT_HIP))) / 2\<rparr>)
      else None)"
  by (simp add: calculateJointAngles_def Let_def upd_if)

lemma calculateJointAngles_never:
  "calculateJointAngles ls LeftWrist = None"
  "calculateJointAngles ls RightWrist = None"
  "calculateJointAngles ls LeftAnkle = None"
  "calculateJointAngles ls RightAnkle = None"
  "calculateJointAngles ls Neck = None"
  "calculateJointAngles ls LeftArmpit = None"
  "calculateJointAngles ls RightArmpit = None"
  by (simp_all add: calculateJointAngles_def Let_def upd_if)


lemma calculateJointAngles_present_iff:
  "calculateJointAngles ls key \<noteq> None \<longleftrightarrow>
     key \<in> set assignedKeys \<and> (\<forall>nm\<in>set (definingLandmarks key). getLandmark ls nm \<noteq> None)"
  by (cases key)
     (simp_all add: calculateJointAngles_assigned calculateJointAngles_Spine
        calculateJointAngles_never assignedKeys_def)

lemma standingPose_found:
  "getLandmark standingPose LEFT_SHOULDER \<noteq> None"
  "getLandmark standingPose RIGHT_SHOULDER \<noteq> None"
  "getLandmark standingPose LEFT_ELBOW \<noteq> None"
  "getLandmark standingPose RIGHT_ELBOW \<noteq> None"
  "getLandmark standingPose LEFT_WRIST \<noteq> None"
  "getLandmark standingPose RIGHT_WRIST \<noteq> None"
  "getLandmark standingPose LEFT_HIP \<noteq> None"
  "getLandmark standingPose RIGHT_HIP \<noteq> None"
  "getLandmark standingPose LEFT_KNEE \<noteq> None"
  "getLandmark standingPose RIGHT_KNEE \<noteq> None"
  "getLandmark standingPose LEFT_ANKLE \<noteq> None"
  "getLandmark standingPose RIGHT_ANKLE \<noteq> None"
  by (simp_all add: getLandmark_def standingPose_def KeypointName_defs)

subsection \<open>Binary64 rounding\<close>

lemma pow2_powr: "pow2 k = 2 powr of_int k"
  by (simp add: pow2_def powr_int)

lemma pow2_pos: "0 < pow2 k"
  by (simp add: pow2_powr)

lemma pow2_add: "pow2 (a + b) = pow2 a * pow2 b"
  by (simp add: pow2_powr powr_add)

lemma pow2_inverse: "pow2 k * pow2 (- k) = 1"
  using pow2_add[of k "- k"] by (simp add: pow2_def)

lemma ilog2_floor_log: "0 < v \<Longrightarrow> ilog2 v = \<lfloor>log 2 v\<rfloor>"
proof (induction v rule: ilog2.induct)
  case (1 v)
  show ?case
  proof (cases "2 \<le> v")
    case True
    then have "log 2 (v / 2) = log 2 v - 1" by (simp add: log_divide)
    then have "\<lfloor>log 2 (v / 2)\<rfloor> = \<lfloor>log 2 v\<rfloor> - 1" by simp
    then show ?thesis using "1.IH"(1) "1.prems" True by (subst ilog2.simps) simp
  next
    case False
    show ?thesis
    proof (cases "v < 1")
      case True
      then have "log 2 (v * 2) = log 2 v + 1" using "1.prems" by (simp add: log_mult)
      then have "\<lfloor>log 2 (v * 2)\<rfloor> = \<lfloor>log 2 v\<rfloor> + 1" by simp
      then show ?thesis using "1.IH"(2) "1.prems" True False by (subst ilog2.simps) simp
    next
      case nsmall: False
      then have "0 \<le> log 2 v" "log 2 v < 1" using False "1.prems" by (simp_all add: log_less_iff)
      then have "\<lfloor>log 2 v\<rfloor> = 0" by (simp add: floor_unique)
      then show ?thesis using "1.prems" False nsmall by (subst ilog2.simps) simp
    qed
  qed
qed

lemma roundHalfEven_of_int: "roundHalfEven (of_int j) = j"
  by (simp add: roundHalfEven_def)

lemma roundHalfEven_minus: "roundHalfEven (- v) = - roundHalfEven v"
proof (cases "v = of_int \<lfloor>v\<rfloor>")
  case True
  then obtain j where "v = of_int j" ..
  then have "- v = of_int (- j)" by simp
  then show ?thesis using \<open>v = of_int j\<close> roundHalfEven_of_int by metis
next
  case False
  then have lt: "of_int \<lfloor>v\<rfloor> < v" using of_int_floor_le[of v] by linarith
  have up: "v < of_int \<lfloor>v\<rfloor> + 1" by linarith
  have "\<lfloor>- v\<rfloor> = - \<lfloor>v\<rfloor> - 1"
  proof (rule floor_unique)
    have "real_of_int (- \<lfloor>v\<rfloor> - 1) = - real_of_int \<lfloor>v\<rfloor> - 1" by simp
    then show "of_int (- \<lfloor>v\<rfloor> - 1) \<le> - v" using up by linarith
    have "real_of_int (- \<lfloor>v\<rfloor> - 1) + 1 = - real_of_int \<lfloor>v\<rfloor>" by simp
    then show "- v < of_int (- \<lfloor>v\<rfloor> - 1) + 1" using lt by linarith
  qed
  then show ?thesis
    using lt by (auto simp add: roundHalfEven_def Let_def)
qed

lemma binary64_zero: "binary64 0 = 0"
  by (simp add: binary64_def)

lemma binary64_minus: "binary64 (- v) = - binary64 v"
  by (simp add: binary64_def Let_def roundHalfEven_minus)

lemma binary64_of_int:
  assumes "\<bar>j\<bar> < 2 ^ 53"
  shows "binary64 (of_int j) = of_int j"
proof (cases "j = 0")
  case True
  then show ?thesis by (simp add: binary64_zero)
next
  case False
  define e where "e = ilog2 \<bar>real_of_int j\<bar>"
  have pos: "0 < \<bar>real_of_int j\<bar>" using False by simp
  have el: "e = \<lfloor>log 2 \<bar>real_of_int j\<bar>\<rfloor>"
    unfolding e_def using pos by (rule ilog2_floor_log)
  have b: "2 powr of_int e \<le> \<bar>real_of_int j\<bar>" "\<bar>real_of_int j\<bar> < 2 powr (of_int e + 1)"
    using floor_log_eq_powr_iff[of "\<bar>real_of_int j\<bar>" 2 e] pos by (simp_all add: el)
  have one: "1 \<le> \<bar>real_of_int j\<bar>" using False by (simp add: abs_if)
  have e0: "0 \<le> e"
    unfolding el using one by (simp add: zero_le_log_cancel_iff)
  have "\<bar>real_of_int j\<bar> < 2 ^ 53"
    using assms by (metis of_int_abs of_int_less_numeral_power_cancel_iff)
  then have lt53: "(2::real) powr of_int e < 2 powr 53" using b(1) by simp
  have e52: "e \<le> 52"
  proof (rule ccontr)
    assume "\<not> e \<le> 52"
    then have "(53::real) \<le> of_int e" by simp
    then have "(2::real) powr 53 \<le> 2 powr of_int e" by (intro powr_mono) simp_all
    with lt53 show False by linarith
  qed
  have p: "pow2 (52 - e) = of_int (2 ^ nat (52 - e))"
    using e52 by (simp add: pow2_def)
  have r: "roundHalfEven (real_of_int j * pow2 (52 - e)) = j * 2 ^ nat (52 - e)"
  proof -
    have "real_of_int j * pow2 (52 - e) = of_int (j * 2 ^ nat (52 - e))"
      by (simp add: p)
    then show ?thesis by (simp only: roundHalfEven_of_int)
  qed
  have "binary64 (real_of_int j) =
      of_int (roundHalfEven (real_of_int j * pow2 (52 - e))) * pow2 (e - 52)"
    using False e0 by (simp add: binary64_def Let_def e_def[symmetric] max_def)
  also have "\<dots> = real_of_int j * (pow2 (52 - e) * pow2 (e - 52))"
    unfolding r by (simp add: p)
  also have "pow2 (52 - e) * pow2 (e - 52) = 1"
    using pow2_inverse[of "52 - e"] by simp
  finally show ?thesis by simp
qed

lemma binary64_of_nat: "n < 2 ^ 53 \<Longrightarrow> binary64 (real n) = real n"
  using binary64_of_int[of "int n"] by simp

lemma binary64_one: "binary64 1 = 1"
  using binary64_of_int[of 1] by simp

lemma binary64_hundred: "binary64 100 = 100"
  using binary64_of_int[of 100] by simp

lemmas binary64_code = binary64_def ilog2.simps pow2_def roundHalfEven_def Let_def

subsection \<open>The comparator\<close>

lemma set_jointKeys: "set jointKeys = UNIV"
proof -
  have "key \<in> set jointKeys" for key
    by (cases key) (simp_all add: jointKeys_def)
  then show ?thesis by blast
qed

lemma distinct_jointKeys: "distinct jointKeys"
  by (simp add: jointKeys_def)

lemma set_Object_keys: "set (Object_keys obj) = dom obj"
  by (auto simp add: Object_keys_def set_jointKeys)

lemma distinct_Object_keys: "distinct (Object_keys obj)"
  by (simp add: Object_keys_def distinct_jointKeys)

lemma jointCredit64_partialCredit:
  "jointCredit64 d r t =
     (if \<bar>binary64 (r - d)\<bar> \<le> t then 1 else partialCredit \<bar>binary64 (r - d)\<bar> t)"
proof -
  have "binary64 (d - r) = - binary64 (r - d)"
    using binary64_minus[of "r - d"] by simp
  then have "\<bar>binary64 (d - r)\<bar> = \<bar>binary64 (r - d)\<bar>" by simp
  then show ?thesis by (simp add: jointCredit64_def partialCredit_def Let_def)
qed

lemma compare_loop_sum64:
  "\<forall>key\<in>set keys. referenceAngles key \<noteq> None \<Longrightarrow>
   compare_loop detectedAngles referenceAngles tolerance keys (matchCount, totalCount) =
     (foldl (\<lambda>s c. binary64 (s + c)) matchCount
        (map (\<lambda>key. jointCredit64 (the (detectedAngles key)) (the (referenceAngles key)) tolerance)
           (filter (\<lambda>key. detectedAngles key \<noteq> None) keys)),
      totalCount + length keys)"
proof (induction keys arbitrary: matchCount totalCount)
  case Nil
  then show ?case by simp
next
  case (Cons key rest)
  then obtain r where r: "referenceAngles key = Some r" by auto
  have rest: "\<forall>k\<in>set rest. referenceAngles k \<noteq> None" using Cons.prems by simp
  show ?case
  proof (cases "detectedAngles key")
    case None
    then show ?thesis using r Cons.IH[OF rest] by simp
  next
    case (Some d)
    then show ?thesis using r Cons.IH[OF rest]
      by (simp add: jointCredit64_partialCredit Let_def)
  qed
qed

lemma comparePoseAnglesKeys_eq:
  assumes "distinct keys" and "set keys = dom reference"
  shows "comparePoseAnglesKeys keys detected reference t =
     (if dom reference = {} then 0
      else Math_round (binary64 (binary64
             (sum64 (map (\<lambda>key. jointCredit64 (the (detected key)) (the (reference key)) t)
                       (filter (\<lambda>key. detected key \<noteq> None) keys))
                / real (card (dom reference))) * 100)))"
proof -
  have all: "\<forall>key\<in>set keys. reference key \<noteq> None"
    using assms(2) by auto
  have len: "length keys = card (dom reference)"
    using distinct_card[OF assms(1)] assms(2) by simp
  have fin: "finite (dom reference)"
    using assms(2) by (metis List.finite_set)
  have empty: "card (dom reference) = 0 \<longleftrightarrow> dom reference = {}"
    using fin by simp
  show ?thesis
    using compare_loop_sum64[OF all, of detected t 0 0] len empty
    by (simp add: comparePoseAnglesKeys_def sum64_def Let_def)
qed

lemma sum64_ones:
  "k + length cs < 2 ^ 53 \<Longrightarrow> \<forall>c\<in>set cs. c = 1 \<Longrightarrow>
   foldl (\<lambda>s c. binary64 (s + c)) (real k) cs = real (k + length cs)"
proof (induction cs arbitrary: k)
  case Nil
  then show ?case by simp
next
  case (Cons c cs)
  have "binary64 (real k + 1) = real (Suc k)"
    using binary64_of_nat[of "Suc k"] Cons.prems(1) by (simp add: add.commute)
  then show ?case using Cons.IH[of "Suc k"] Cons.prems by simp
qed

lemma sum64_all_ones:
  assumes "length cs < 2 ^ 53" and "\<forall>c\<in>set cs. c = 1"
  shows "sum64 cs = real (length cs)"
  using sum64_ones[of 0 cs] assms by (simp add: sum64_def)

lemma length_Object_keys: "length (Object_keys obj) \<le> 16"
proof -
  have "length (Object_keys obj) \<le> length jointKeys"
    unfolding Object_keys_def by (rule length_filter_le)
  then show ?thesis by (simp add: jointKeys_def)
qed

lemma jointCredit64_same: "0 \<le> t \<Longrightarrow> jointCredit64 a a t = 1"
  by (simp add: jointCredit64_def binary64_zero)

lemma comparePoseAngles_eq64:
  "comparePoseAngles detected reference t =
     (if dom reference = {} then 0
      else Math_round (binary64 (binary64
             (sum64 (map (\<lambda>key. jointCredit64 (the (detected key)) (the (reference key)) t)
                       (filter (\<lambda>key. detected key \<noteq> None) (Object_keys reference)))
                / real (card (dom reference))) * 100)))"
  using comparePoseAnglesKeys_eq[OF distinct_Object_keys set_Object_keys, of reference detected t]
  by (simp add: comparePoseAngles_def)

lemma comparePoseAnglesKeys_same:
  assumes "distinct keys" and "set keys = dom a" and "dom a \<noteq> {}" and "0 \<le> t"
  shows "comparePoseAnglesKeys keys a a t = 100"
proof -
  let ?credits = "map (\<lambda>key. jointCredit64 (the (a key)) (the (a key)) t)
                    (filter (\<lambda>key. a key \<noteq> None) keys)"
  have len: "length keys = card (dom a)"
    using distinct_card[OF assms(1)] assms(2) by simp
  have finU: "finite (UNIV :: JointKey set)"
    using set_jointKeys by (metis List.finite_set)
  have "card (dom a) \<le> card (UNIV :: JointKey set)"
    by (rule card_mono[OF finU subset_UNIV])
  also have "card (UNIV :: JointKey set) = length jointKeys"
    using distinct_card[OF distinct_jointKeys] unfolding set_jointKeys .
  also have "length jointKeys = 16" by (simp add: jointKeys_def)
  finally have small: "length keys \<le> 16" using len by simp
  have keep: "filter (\<lambda>key. a key \<noteq> None) keys = keys"
    using assms(2) by (auto simp add: filter_id_conv)
  have ones: "\<forall>c\<in>set ?credits. c = 1"
    using assms(4) by (auto simp add: jointCredit64_same)
  have "length ?credits < 2 ^ 53" using small keep by simp
  then have "sum64 ?credits = real (length ?credits)"
    using ones by (rule sum64_all_ones)
  then have s: "sum64 ?credits = real (card (dom a))" using keep len by simp
  have fin: "finite (dom a)" using assms(2) by (metis List.finite_set)
  have pos: "0 < card (dom a)" using fin assms(3) by (simp add: card_gt_0_iff)
  have one: "real (card (dom a)) / real (card (dom a)) = 1" using pos by simp
  have "comparePoseAnglesKeys keys a a t =
      Math_round (binary64 (binary64 (sum64 ?credits / real (card (dom a))) * 100))"
    using assms(3) by (simp only: comparePoseAnglesKeys_eq[OF assms(1,2)] if_False)
  also have "\<dots> = Math_round (binary64 (binary64 1 * 100))"
    by (simp only: s one)
  also have "\<dots> = 100"
    by (simp add: binary64_one binary64_hundred Math_round_def)
  finally show ?thesis .
qed

lemma jointCredit64_kneeAt63: "jointCredit64 63 90 15 = 900719925474099 / 4503599627370496"
  by (simp add: jointCredit64_def binary64_code)

lemma comparePoseAngles_kneeAt63: "comparePoseAngles kneeAt63 eightJoints 15 = 2"
  by (simp add: comparePoseAngles_eq64 Object_keys_def jointKeys_def kneeAt63_def eightJoints_def
        sum64_def jointCredit64_kneeAt63)
     (simp add: binary64_code Math_round_def)

lemma exactScore_kneeAt63: "exactScore kneeAt63 eightJoints 15 = 3"
  by (simp add: exactScore_def kneeAt63_def eightJoints_def jointCredit_def Math_round_def)


lemma jointCredit64_kneeAt57: "jointCredit64 57 90 20 = 3152519739159347 / 9007199254740992"
  by (simp add: jointCredit64_def binary64_code)

lemma comparePoseAngles_kneeAt57: "comparePoseAngles kneeAt57 tenJoints 20 = 3"
  by (simp add: comparePoseAngles_eq64 Object_keys_def jointKeys_def kneeAt57_def tenJoints_def
        sum64_def jointCredit64_kneeAt57)
     (simp add: binary64_code Math_round_def)

lemma exactScore_kneeAt57: "exactScore kneeAt57 tenJoints 20 = 4"
  by (simp add: exactScore_def kneeAt57_def tenJoints_def jointCredit_def Math_round_def)

lemma productFirstScore64_kneeAt57: "productFirstScore64 (Object_keys tenJoints) kneeAt57 tenJoints 20 = 4"
  by (simp add: productFirstScore64_def Object_keys_def jointKeys_def kneeAt57_def tenJoints_def
        sum64_def jointCredit64_kneeAt57)
     (simp add: binary64_code Math_round_def)

lemma jointCredit64_twice:
  assumes "0 < t" and "binary64 t = t" and "\<bar>binary64 (d - r)\<bar> = 2 * t"
  shows "jointCredit64 d r t = 0"
proof -
  have "\<bar>binary64 (d - r)\<bar> - t = t" using assms(3) by simp
  then show ?thesis
    using assms by (simp add: jointCredit64_def Let_def binary64_one binary64_zero)
qed

subsection \<open>The smoother\<close>

lemma smooth_loop_Cons:
  "smooth_loop this smoothed (current # rest) =
     smooth_loop (remember this current) (smoothed @ [smoothOne this current]) rest"
  by (simp add: smoothOne_def remember_def Let_def split: option.split)

lemma name_smoothOne: "name (smoothOne this current) = name current"
  by (simp add: smoothOne_def split: option.split)

lemma remember_other:
  "nm \<noteq> name current \<Longrightarrow> previousLandmarks (remember this current) nm = previousLandmarks this nm"
  by (simp add: remember_def)

lemma remember_same:
  "previousLandmarks (remember this current) (name current) = Some (smoothOne this current)"
  by (simp add: remember_def)

lemma alpha_remember: "alpha (remember this current) = alpha this"
  by (simp add: remember_def)

lemma smoothOne_remember_other:
  "name c \<noteq> name current \<Longrightarrow> smoothOne (remember this current) c = smoothOne this c"
  by (simp add: smoothOne_def remember_other alpha_remember split: option.split)

lemma smooth_loop_fst_prefix:
  "\<exists>out. fst (smooth_loop this smoothed ls) = smoothed @ out \<and> length out = length ls"
proof (induction ls arbitrary: this smoothed)
  case Nil
  then show ?case by simp
next
  case (Cons current rest)
  from Cons.IH[of "remember this current" "smoothed @ [smoothOne this current]"]
  obtain out where "fst (smooth_loop (remember this current) (smoothed @ [smoothOne this current]) rest)
      = (smoothed @ [smoothOne this current]) @ out" "length out = length rest" by blast
  then show ?case by (simp del: smooth_loop.simps(2) add: smooth_loop_Cons)
qed

lemma length_smooth: "length (fst (smooth this ls)) = length ls"
  using smooth_loop_fst_prefix[of this "[]" ls] by (auto simp add: smooth_def)

lemma smooth_loop_nth:
  "i < length ls \<Longrightarrow> name (ls ! i) \<notin> name ` set (take i ls) \<Longrightarrow>
   fst (smooth_loop this smoothed ls) ! (length smoothed + i) = smoothOne this (ls ! i)"
proof (induction ls arbitrary: this smoothed i)
  case Nil
  then show ?case by simp
next
  case (Cons current rest)
  show ?case
  proof (cases i)
    case 0
    obtain out where out:
      "fst (smooth_loop (remember this current) (smoothed @ [smoothOne this current]) rest)
         = (smoothed @ [smoothOne this current]) @ out"
      using smooth_loop_fst_prefix by blast
    show ?thesis using 0 out by (simp del: smooth_loop.simps(2) add: smooth_loop_Cons nth_append)
  next
    case (Suc j)
    with Cons.prems have j: "j < length rest"
      and fresh: "name (rest ! j) \<notin> name ` set (take j rest)"
      and ne: "name (rest ! j) \<noteq> name current"
      by auto
    from Cons.IH[OF j fresh, of "remember this current" "smoothed @ [smoothOne this current]"]
    show ?thesis using Suc ne
      by (simp del: smooth_loop.simps(2) add: smooth_loop_Cons smoothOne_remember_other)
  qed
qed

lemma smooth_nth:
  "i < length ls \<Longrightarrow> name (ls ! i) \<notin> name ` set (take i ls) \<Longrightarrow>
   fst (smooth this ls) ! i = smoothOne this (ls ! i)"
  using smooth_loop_nth[of i ls this "[]"] by (simp add: smooth_def)

lemma smooth_loop_untouched:
  "nm \<notin> name ` set ls \<Longrightarrow>
   previousLandmarks (snd (smooth_loop this smoothed ls)) nm = previousLandmarks this nm"
proof (induction ls arbitrary: this smoothed)
  case Nil
  then show ?case by simp
next
  case (Cons current rest)
  then show ?case by (simp del: smooth_loop.simps(2) add: smooth_loop_Cons remember_other)
qed

lemma smooth_loop_stored:
  "i < length ls \<Longrightarrow> name (ls ! i) \<notin> name ` set (drop (Suc i) ls) \<Longrightarrow>
   previousLandmarks (snd (smooth_loop this smoothed ls)) (name (ls ! i)) =
     Some (fst (smooth_loop this smoothed ls) ! (length smoothed + i))"
proof (induction ls arbitrary: this smoothed i)
  case Nil
  then show ?case by simp
next
  case (Cons current rest)
  show ?case
  proof (cases i)
    case 0
    obtain out where out:
      "fst (smooth_loop (remember this current) (smoothed @ [smoothOne this current]) rest)
         = (smoothed @ [smoothOne this current]) @ out"
      using smooth_loop_fst_prefix by blast
    from 0 Cons.prems have "name current \<notin> name ` set rest" by simp
    then have "previousLandmarks
        (snd (smooth_loop (remember this current) (smoothed @ [smoothOne this current]) rest))
        (name current) = Some (smoothOne this current)"
      by (simp add: smooth_loop_untouched remember_same)
    then show ?thesis using 0 out by (simp del: smooth_loop.simps(2) add: smooth_loop_Cons nth_append)
  next
    case (Suc j)
    with Cons.prems have j: "j < length rest"
      and last: "name (rest ! j) \<notin> name ` set (drop (Suc j) rest)"
      by auto
    from Cons.IH[OF j last, of "remember this current" "smoothed @ [smoothOne this current]"]
    show ?thesis using Suc by (simp del: smooth_loop.simps(2) add: smooth_loop_Cons)
  qed
qed

lemma smooth_stored:
  "i < length ls \<Longrightarrow> name (ls ! i) \<notin> name ` set (drop (Suc i) ls) \<Longrightarrow>
   previousLandmarks (snd (smooth this ls)) (name (ls ! i)) = Some (fst (smooth this ls) ! i)"
  using smooth_loop_stored[of i ls this "[]"] by (simp add: smooth_def)

lemma smooth_loop_append:
  "smooth_loop this smoothed (xs @ ys) =
     smooth_loop (snd (smooth_loop this smoothed xs)) (fst (smooth_loop this smoothed xs)) ys"
  by (induction xs arbitrary: this smoothed)
     (simp_all del: smooth_loop.simps(2) add: smooth_loop_Cons)

lemma smooth_prefix_nth:
  assumes "i < length ls"
  shows "fst (smooth this (take (Suc i) ls)) ! i = fst (smooth this ls) ! i"
proof -
  let ?xs = "take (Suc i) ls" and ?ys = "drop (Suc i) ls"
  have len: "length (fst (smooth this ?xs)) = Suc i"
    using assms by (simp add: length_smooth)
  obtain out where out:
    "fst (smooth_loop (snd (smooth this ?xs)) (fst (smooth this ?xs)) ?ys) =
       fst (smooth this ?xs) @ out"
    using smooth_loop_fst_prefix by blast
  have "smooth this ls = smooth_loop (snd (smooth this ?xs)) (fst (smooth this ?xs)) ?ys"
    using smooth_loop_append[of this "[]" ?xs ?ys] by (simp add: smooth_def)
  then have "fst (smooth this ls) = fst (smooth this ?xs) @ out" using out by simp
  then show ?thesis using len by (simp add: nth_append)
qed

lemma smooth_stored_at_once:
  assumes "i < length ls"
  shows "previousLandmarks (snd (smooth this (take (Suc i) ls))) (name (ls ! i)) =
           Some (fst (smooth this ls) ! i)"
proof -
  have i: "i < length (take (Suc i) ls)" using assms by simp
  have "name (take (Suc i) ls ! i) \<notin> name ` set (drop (Suc i) (take (Suc i) ls))" by simp
  from smooth_stored[OF i this, of this] show ?thesis
    using assms by (simp add: smooth_prefix_nth)
qed

lemma alpha_smooth_loop: "alpha (snd (smooth_loop this smoothed ls)) = alpha this"
  by (induction ls arbitrary: this smoothed) (simp_all del: smooth_loop.simps(2) add: smooth_loop_Cons alpha_remember)

lemma distinct_names_take: "distinct (map name ls) \<Longrightarrow> i < length ls \<Longrightarrow> name (ls ! i) \<notin> name ` set (take i ls)"
proof -
  assume d: "distinct (map name ls)" and i: "i < length ls"
  have "ls = take i ls @ ls ! i # drop (Suc i) ls" using i by (simp add: id_take_nth_drop)
  then have "map name ls = map name (take i ls) @ name (ls ! i) # map name (drop (Suc i) ls)"
    by (metis list.simps(9) map_append)
  with d have "distinct (map name (take i ls) @ name (ls ! i) # map name (drop (Suc i) ls))" by simp
  then show ?thesis by auto
qed

lemma distinct_names_drop: "distinct (map name ls) \<Longrightarrow> i < length ls \<Longrightarrow> name (ls ! i) \<notin> name ` set (drop (Suc i) ls)"
proof -
  assume d: "distinct (map name ls)" and i: "i < length ls"
  have "ls = take i ls @ ls ! i # drop (Suc i) ls" using i by (simp add: id_take_nth_drop)
  then have "map name ls = map name (take i ls) @ name (ls ! i) # map name (drop (Suc i) ls)"
    by (metis list.simps(9) map_append)
  with d have "distinct (map name (take i ls) @ name (ls ! i) # map name (drop (Suc i) ls))" by simp
  then show ?thesis by auto
qed

lemma smooth_reset_passthrough:
  assumes "distinct (map name ls)"
  shows "fst (smooth (reset this) ls) = ls"
proof (rule nth_equalityI)
  show "length (fst (smooth (reset this) ls)) = length ls" by (rule length_smooth)
next
  fix i assume "i < length (fst (smooth (reset this) ls))"
  then have i: "i < length ls" by (simp add: length_smooth)
  have "fst (smooth (reset this) ls) ! i = smoothOne (reset this) (ls ! i)"
    using smooth_nth[OF i distinct_names_take[OF assms i]] .
  then show "fst (smooth (reset this) ls) ! i = ls ! i"
    by (simp add: smoothOne_def reset_def)
qed

subsection \<open>Visibility and the module's smoother\<close>

lemma isPersonFullyVisible_count:
  "isPersonFullyVisible ls \<longleftrightarrow>
     5 \<le> length (filter (\<lambda>l. name l \<in> set criticalPoints \<and> isVisible l \<and> confidence l > 0.5) ls)"
proof -
  have "length criticalPoints = 7" by (simp add: criticalPoints_def)
  moreover have "(real n \<ge> real (7::nat) * 0.7) = (5 \<le> n)" for n :: nat
    by (simp add: field_simps) linarith
  ultimately show ?thesis
    by (simp add: isPersonFullyVisible_def Let_def)
qed

lemma criticalPoints_seven: "distinct criticalPoints \<and> length criticalPoints = 7"
  by (simp add: criticalPoints_def KeypointName_defs)

lemma isPersonFullyVisible_distinct:
  assumes "distinct (map name ls)"
  shows "isPersonFullyVisible ls \<longleftrightarrow>
     5 \<le> card {nm \<in> set criticalPoints.
                 \<exists>l\<in>set ls. name l = nm \<and> isVisible l \<and> confidence l > 0.5}"
proof -
  let ?P = "\<lambda>l. name l \<in> set criticalPoints \<and> isVisible l \<and> confidence l > 0.5"
  have d: "distinct (map name (filter ?P ls))"
    using assms by (rule distinct_map_filter)
  have "{nm \<in> set criticalPoints. \<exists>l\<in>set ls. name l = nm \<and> isVisible l \<and> confidence l > 0.5}
        = set (map name (filter ?P ls))"
    by auto
  then have "card {nm \<in> set criticalPoints.
                 \<exists>l\<in>set ls. name l = nm \<and> isVisible l \<and> confidence l > 0.5}
        = length (filter ?P ls)"
    using distinct_card[OF d] by simp
  then show ?thesis by (simp add: isPersonFullyVisible_count)
qed

lemma getSmoother_same:
  "smootherInstance m = Some r \<Longrightarrow> currentAlpha m = a \<Longrightarrow> getSmoother a m = (r, m)"
  by (simp add: getSmoother_def)

lemma getSmoother_fresh:
  assumes "smootherInstance m = None \<or> currentAlpha m \<noteq> a"
  shows "getSmoother a m =
           (length (heap m),
            m\<lparr>heap := heap m @ [new_LandmarkSmoother a],
              smootherInstance := Some (length (heap m)),
              currentAlpha := a\<rparr>)"
  using assms by (auto simp add: getSmoother_def)

lemma wellFormed_initial: "wellFormed initialModule"
  by (simp add: wellFormed_def initialModule_def)

lemma wellFormed_getSmoother: "wellFormed m \<Longrightarrow> wellFormed (snd (getSmoother a m))"
  by (auto simp add: wellFormed_def getSmoother_def split: option.splits)

lemma getSmoother_valid:
  "wellFormed m \<Longrightarrow> fst (getSmoother a m) < length (heap (snd (getSmoother a m)))"
  by (auto simp add: wellFormed_def getSmoother_def split: option.splits)

lemma wellFormed_applySmoothing: "wellFormed m \<Longrightarrow> wellFormed (snd (applySmoothing ls config m))"
  by (auto simp add: wellFormed_def applySmoothing_def getSmoother_def Let_def
        split: option.splits prod.splits)

lemma applySmoothing_changed:
  assumes "enableSmoothing config"
    and "smootherInstance m = None \<or> smoothingFactor config \<noteq> currentAlpha m"
  shows "applySmoothing ls config m =
           (fst (smooth (new_LandmarkSmoother (smoothingFactor config)) ls),
            m\<lparr>heap := heap m @ [snd (smooth (new_LandmarkSmoother (smoothingFactor config)) ls)],
              smootherInstance := Some (length (heap m)),
              currentAlpha := smoothingFactor config\<rparr>)"
proof -
  have "smootherInstance m = None \<or> currentAlpha m \<noteq> smoothingFactor config"
    using assms(2) by auto
  from getSmoother_fresh[OF this] show ?thesis
    using assms(1) by (simp add: applySmoothing_def Let_def split: prod.splits)
qed

lemma applySmoothing_shared:
  assumes "enableSmoothing config" and "smootherInstance m = Some r"
    and "smoothingFactor config = currentAlpha m"
  shows "applySmoothing ls config m =
           (fst (smooth (heap m ! r) ls), m\<lparr>heap := (heap m)[r := snd (smooth (heap m ! r) ls)]\<rparr>)"
  using assms by (simp add: applySmoothing_def getSmoother_def Let_def split: prod.splits)

section \<open>The claims\<close>

subsection \<open>C1: the keys of the joint angle map\<close>

text \<open>
  \<^bold>\<open>C1.\<close> The claim: for a frame in which all seventeen keypoints are present, visible,
  confident and in general position, \<open>calculateJointAngles\<close> returns a map with the
  fourteen joint keys left/right elbow, shoulder, wrist, hip, knee, ankle, neck and spine.
  The function has nine assignments: on the frame \<open>standingPose\<close>, which meets the
  premise, its result has the keys of the elbows, shoulders, knees and hips and of the
  spine, and on no frame has it a key for a wrist, an ankle or the neck.
\<close>

theorem calculateJointAngles_standingPose_keys:
  "dom (calculateJointAngles standingPose) =
     {LeftElbow, RightElbow, LeftShoulder, RightShoulder, LeftKnee, RightKnee,
      LeftHip, RightHip, Spine} \<and>
   calculateJointAngles ls LeftWrist = None \<and> calculateJointAngles ls RightWrist = None \<and>
   calculateJointAngles ls LeftAnkle = None \<and> calculateJointAngles ls RightAnkle = None \<and>
   calculateJointAngles ls Neck = None"
proof -
  have "key \<in> dom (calculateJointAngles standingPose) \<longleftrightarrow> key \<in> set assignedKeys" for key
    unfolding dom_def mem_Collect_eq calculateJointAngles_present_iff
    by (cases key) (simp_all add: standingPose_found assignedKeys_def del: not_None_eq)
  then have "dom (calculateJointAngles standingPose) =
     {LeftElbow, RightElbow, LeftShoulder, RightShoulder, LeftKnee, RightKnee,
      LeftHip, RightHip, Spine}"
    by (auto simp add: assignedKeys_def)
  then show ?thesis by (simp add: calculateJointAngles_never)
qed

subsection \<open>C2: the score of the comparator\<close>

text \<open>
  \<^bold>\<open>C2.\<close> The claim: for every detected map, reference map and tolerance \<open>t\<close>,
  \<open>comparePoseAngles\<close> returns \<open>round (100 * credits / count)\<close>, where \<open>count\<close> is the
  number of joints of the reference and \<open>credits\<close> the sum over them of 0 for a joint
  that was not detected, 1 for a difference within \<open>t\<close> and
  \<open>max(0, 1 - (diff - t) / t)\<close> beyond it; a reference without joints scores 0.
  The program computes in binary64, and the value it rounds to an integer can lie on the
  other side of a half than the value of the formula. With the left knee alone detected,
  at 63 degrees, against eight joints at 90 degrees and tolerance 15, the credit is
  \<open>0.19999999999999996\<close> where the formula has \<open>1 / 5\<close>; the program rounds
  \<open>2.4999999999999996\<close> to 2 and the formula \<open>5 / 2\<close> to 3. With the knee at 57 degrees
  against ten joints and tolerance 20 the program returns 3 and the formula 4, and here the
  order of the operations decides: the program divides by the count before it multiplies
  by 100, and the expression of the claim, product first, would give 4 in binary64 as well.
\<close>

theorem comparePoseAngles_rounding:
  "comparePoseAngles kneeAt63 eightJoints 15 = 2 \<and>
   exactScore kneeAt63 eightJoints 15 = 3 \<and>
   comparePoseAngles kneeAt57 tenJoints 20 = 3 \<and>
   exactScore kneeAt57 tenJoints 20 = 4 \<and>
   productFirstScore64 (Object_keys tenJoints) kneeAt57 tenJoints 20 = 4"
  using comparePoseAngles_kneeAt63 exactScore_kneeAt63 comparePoseAngles_kneeAt57 exactScore_kneeAt57 productFirstScore64_kneeAt57 by simp

text \<open>
  \<^bold>\<open>C2\<close>, amended: for every detected map, reference map and tolerance \<open>t\<close>, and for
  every order in which \<open>Object.keys\<close> lists the joints of the reference,
  \<open>comparePoseAngles\<close> returns 0 for a reference without joints and otherwise
  \<open>round ((credits / count) * 100)\<close> with the quotient and the product rounded to
  binary64, where \<open>count\<close> is the number of joints of the reference and \<open>credits\<close> is the
  sum, added up from 0 in the order of the keys with every addition rounded to binary64,
  of the credits of the joints that were detected: 1 for a difference (rounded) within
  \<open>t\<close>, and beyond it \<open>max(0, 1 - (diff - t) / t)\<close> with every operation rounded. A joint
  that was not detected adds nothing to the sum and counts in \<open>count\<close>. The credit is 0 at
  a difference of \<open>2 * t\<close>, for a tolerance that is a positive binary64 number.
  \<open>comparePoseAngles\<close> is \<open>comparePoseAnglesKeys\<close> at one such order of the keys.
\<close>

theorem comparePoseAngles_binary64_score:
  "(distinct keys \<and> set keys = dom reference \<longrightarrow>
      comparePoseAnglesKeys keys detected reference t =
        (if dom reference = {} then 0
         else Math_round (binary64 (binary64
                (sum64 (map (\<lambda>key. jointCredit64 (the (detected key)) (the (reference key)) t)
                          (filter (\<lambda>key. detected key \<noteq> None) keys))
                   / real (card (dom reference))) * 100)))) \<and>
   comparePoseAngles detected reference t =
     comparePoseAnglesKeys (Object_keys reference) detected reference t \<and>
   distinct (Object_keys reference) \<and> set (Object_keys reference) = dom reference \<and>
   (0 < t \<and> binary64 t = t \<and> \<bar>binary64 (d - r)\<bar> = 2 * t \<longrightarrow> jointCredit64 d r t = 0)"
  using comparePoseAnglesKeys_eq[of keys reference detected t] jointCredit64_twice[of t d r]
  by (simp add: comparePoseAngles_def distinct_Object_keys set_Object_keys)

theorem comparePoseAngles_binary64_score_witness:
  "comparePoseAnglesKeys [RightKnee, LeftKnee] [LeftKnee \<mapsto> 90, RightKnee \<mapsto> 170]
     [LeftKnee \<mapsto> 90, RightKnee \<mapsto> 180] 15 = 100 \<and>
   comparePoseAngles [LeftKnee \<mapsto> 60] [LeftKnee \<mapsto> 90, RightKnee \<mapsto> 180] 15 = 0 \<and>
   comparePoseAngles [LeftKnee \<mapsto> 70] [LeftKnee \<mapsto> 90] 15 = 67 \<and>
   jointCredit64 60 90 15 = 0"
proof -
  let ?ref = "[LeftKnee \<mapsto> 90 :: real, RightKnee \<mapsto> 180]"
  have k2: "distinct [RightKnee, LeftKnee] \<and> set [RightKnee, LeftKnee] = dom ?ref"
    by auto
  have c170: "jointCredit64 170 180 15 = 1" "jointCredit64 90 90 15 = 1"
    by (simp_all add: jointCredit64_def binary64_code)
  have both: "comparePoseAnglesKeys [RightKnee, LeftKnee] [LeftKnee \<mapsto> 90, RightKnee \<mapsto> 170]
      ?ref 15 = 100"
    using comparePoseAngles_binary64_score[of "[RightKnee, LeftKnee]" ?ref
        "[LeftKnee \<mapsto> 90, RightKnee \<mapsto> 170]" 15, THEN conjunct1, rule_format, OF k2]
    by (simp add: sum64_def c170) (simp add: binary64_code Math_round_def)
  have twice: "(0 :: real) < 15 \<and> binary64 15 = 15 \<and> \<bar>binary64 (60 - 90)\<bar> = 2 * 15"
    by (simp add: binary64_code)
  have c60: "jointCredit64 60 90 15 = 0"
    using comparePoseAngles_binary64_score[of "Object_keys ?ref" ?ref "[LeftKnee \<mapsto> 60]" 15 60 90]
      twice by blast
  have d60: "distinct (Object_keys ?ref) \<and> set (Object_keys ?ref) = dom ?ref"
    using comparePoseAngles_binary64_score[of "Object_keys ?ref" ?ref "[LeftKnee \<mapsto> 60]" 15 60 90]
    by blast
  have k60: "Object_keys ?ref = [LeftKnee, RightKnee]"
    by (simp add: Object_keys_def jointKeys_def)
  have far: "comparePoseAngles [LeftKnee \<mapsto> 60] ?ref 15 = 0"
    using comparePoseAngles_binary64_score[of "Object_keys ?ref" ?ref "[LeftKnee \<mapsto> 60]" 15,
        THEN conjunct1, rule_format, OF d60]
    by (simp add: comparePoseAngles_def k60 sum64_def c60) (simp add: binary64_code Math_round_def)
  have c70: "jointCredit64 70 90 15 = 3002399751580331 / 4503599627370496"
    by (simp add: jointCredit64_def binary64_code)
  have k70: "Object_keys [LeftKnee \<mapsto> 90 :: real] = [LeftKnee]"
    by (simp add: Object_keys_def jointKeys_def)
  have d70: "distinct [LeftKnee] \<and> set [LeftKnee] = dom [LeftKnee \<mapsto> 90 :: real]"
    by simp
  have near: "comparePoseAngles [LeftKnee \<mapsto> 70] [LeftKnee \<mapsto> 90] 15 = 67"
    using comparePoseAngles_binary64_score[of "[LeftKnee]" "[LeftKnee \<mapsto> 90]"
        "[LeftKnee \<mapsto> 70]" 15, THEN conjunct1, rule_format, OF d70]
    by (simp add: comparePoseAngles_def k70 sum64_def c70) (simp add: binary64_code Math_round_def)
  show ?thesis using both far near c60 by simp
qed

subsection \<open>C4: a map compared with itself\<close>

text \<open>
  \<^bold>\<open>C4.\<close> The claim: for every map \<open>a\<close>, \<open>comparePoseAngles a a 15\<close> is 100.
  It fails for the map without keys (the result of \<open>calculateJointAngles\<close> on a frame
  where no joint has its landmarks), for which the guard on \<open>totalCount\<close> returns 0.
\<close>

theorem comparePoseAngles_empty_self:
  "comparePoseAngles Map.empty Map.empty 15 = 0 \<and>
   comparePoseAngles Map.empty Map.empty 15 \<noteq> 100"
  by (simp add: comparePoseAngles_eq64)

text \<open>
  \<^bold>\<open>C4\<close>, amended: for every map \<open>a\<close> with a joint at least,
  \<open>comparePoseAngles a a 15\<close> is 100.
\<close>

theorem comparePoseAngles_self:
  assumes "dom a \<noteq> {}"
  shows "comparePoseAngles a a 15 = 100"
  using comparePoseAnglesKeys_same[OF distinct_Object_keys set_Object_keys assms, of 15]
  by (simp add: comparePoseAngles_def)

theorem comparePoseAngles_self_witness:
  "comparePoseAngles [LeftKnee \<mapsto> 90, Spine \<mapsto> 3] [LeftKnee \<mapsto> 90, Spine \<mapsto> 3] 15 = 100"
  using comparePoseAngles_self[of "[LeftKnee \<mapsto> 90, Spine \<mapsto> 3]"] by simp

subsection \<open>C3: the exponential moving average\<close>

text \<open>
  \<^bold>\<open>C3.\<close> Let the smoother hold a previous landmark for the name of the \<open>i\<close>-th
  landmark of the frame, this landmark being the first of its name in the frame (in a
  frame of the data model, which has one entry per name at most, every landmark is).
  Then the \<open>i\<close>-th landmark that \<open>smooth\<close> returns has
  \<open>x = \<alpha> * raw + (1 - \<alpha>) * previous\<close>, \<open>y\<close> likewise, \<open>z\<close> likewise when the
  raw and the previous landmark both have one and the raw \<open>z\<close> otherwise; its name,
  confidence and visibility are those of the raw landmark; and it is what the smoother
  holds for that name once the loop has passed the landmark (the smoother after the first
  \<open>i + 1\<close> landmarks), hence after the call when no later landmark of the frame has
  the name.
\<close>

theorem smooth_exponential_average:
  assumes "i < length ls"
    and "previousLandmarks this (name (ls ! i)) = Some previous"
    and "name (ls ! i) \<notin> name ` set (take i ls)"
  shows
    "x (fst (smooth this ls) ! i) = alpha this * x (ls ! i) + (1 - alpha this) * x previous \<and>
     y (fst (smooth this ls) ! i) = alpha this * y (ls ! i) + (1 - alpha this) * y previous \<and>
     (\<forall>zr zp. z (ls ! i) = Some zr \<and> z previous = Some zp \<longrightarrow>
        z (fst (smooth this ls) ! i) = Some (alpha this * zr + (1 - alpha this) * zp)) \<and>
     (z (ls ! i) = None \<or> z previous = None \<longrightarrow> z (fst (smooth this ls) ! i) = z (ls ! i)) \<and>
     name (fst (smooth this ls) ! i) = name (ls ! i) \<and>
     confidence (fst (smooth this ls) ! i) = confidence (ls ! i) \<and>
     isVisible (fst (smooth this ls) ! i) = isVisible (ls ! i) \<and>
     previousLandmarks (snd (smooth this (take (Suc i) ls))) (name (ls ! i)) =
       Some (fst (smooth this ls) ! i) \<and>
     (name (ls ! i) \<notin> name ` set (drop (Suc i) ls) \<longrightarrow>
        previousLandmarks (snd (smooth this ls)) (name (ls ! i)) = Some (fst (smooth this ls) ! i))"
proof -
  have out: "fst (smooth this ls) ! i = smoothOne this (ls ! i)"
    using assms(1,3) by (rule smooth_nth)
  have fields:
    "x (smoothOne this (ls ! i)) = alpha this * x (ls ! i) + (1 - alpha this) * x previous"
    "y (smoothOne this (ls ! i)) = alpha this * y (ls ! i) + (1 - alpha this) * y previous"
    "\<forall>zr zp. z (ls ! i) = Some zr \<and> z previous = Some zp \<longrightarrow>
        z (smoothOne this (ls ! i)) = Some (alpha this * zr + (1 - alpha this) * zp)"
    "z (ls ! i) = None \<or> z previous = None \<longrightarrow> z (smoothOne this (ls ! i)) = z (ls ! i)"
    "name (smoothOne this (ls ! i)) = name (ls ! i)"
    "confidence (smoothOne this (ls ! i)) = confidence (ls ! i)"
    "isVisible (smoothOne this (ls ! i)) = isVisible (ls ! i)"
    using assms(2) by (auto simp add: smoothOne_def)
  have stored: "name (ls ! i) \<notin> name ` set (drop (Suc i) ls) \<longrightarrow>
      previousLandmarks (snd (smooth this ls)) (name (ls ! i)) = Some (fst (smooth this ls) ! i)"
    using assms(1) by (simp add: smooth_stored)
  have at_once: "previousLandmarks (snd (smooth this (take (Suc i) ls))) (name (ls ! i)) =
      Some (fst (smooth this ls) ! i)"
    using assms(1) by (rule smooth_stored_at_once)
  show ?thesis
    unfolding out using fields stored[unfolded out] at_once[unfolded out] by blast
qed

text \<open>
  The smoother \<open>seenFirstFrame\<close> smooths the nose of
  \<open>secondFrame\<close> to the midpoint of the two noses in \<open>x\<close>, \<open>y\<close> and \<open>z\<close>, keeps
  its confidence 0.8 and its visibility \<open>False\<close>, and stores the result. The wrist
  had no \<open>z\<close> in \<open>firstFrame\<close>: its \<open>x\<close> is smoothed and its \<open>z\<close> is the raw one.
\<close>

theorem smooth_exponential_average_witness:
  "x (fst (smooth seenFirstFrame secondFrame) ! 0) = 0.3 \<and>
   y (fst (smooth seenFirstFrame secondFrame) ! 0) = 0.6 \<and>
   z (fst (smooth seenFirstFrame secondFrame) ! 0) = Some 0.2 \<and>
   confidence (fst (smooth seenFirstFrame secondFrame) ! 0) = 0.8 \<and>
   \<not> isVisible (fst (smooth seenFirstFrame secondFrame) ! 0) \<and>
   previousLandmarks (snd (smooth seenFirstFrame secondFrame)) NOSE =
     Some (fst (smooth seenFirstFrame secondFrame) ! 0) \<and>
   x (fst (smooth seenFirstFrame secondFrame) ! 1) = 0.7 \<and>
   z (fst (smooth seenFirstFrame secondFrame) ! 1) = Some 0.5"
proof -
  let ?p = "\<lparr>x = 0.2, y = 0.4, name = NOSE, z = Some 0.1, confidence = 0.9, isVisible = True\<rparr>"
  let ?out = "fst (smooth seenFirstFrame secondFrame) ! 0"
  have a: "alpha seenFirstFrame = 1 / 2"
    by (simp add: seenFirstFrame_def smooth_def alpha_smooth_loop new_LandmarkSmoother_def)
  have raw: "x (secondFrame ! 0) = 2 / 5" "y (secondFrame ! 0) = 4 / 5"
    "z (secondFrame ! 0) = Some (3 / 10)" "name (secondFrame ! 0) = NOSE"
    "confidence (secondFrame ! 0) = 4 / 5" "\<not> isVisible (secondFrame ! 0)"
    by (simp_all add: secondFrame_def)
  have p: "previousLandmarks seenFirstFrame (name (secondFrame ! 0)) = Some ?p"
    by (simp add: seenFirstFrame_def smooth_def new_LandmarkSmoother_def firstFrame_def
          secondFrame_def KeypointName_defs)
  have i: "0 < length secondFrame" by (simp add: secondFrame_def)
  have f: "name (secondFrame ! 0) \<notin> name ` set (take 0 secondFrame)" by simp
  have l: "name (secondFrame ! 0) \<notin> name ` set (drop (Suc 0) secondFrame)"
    by (simp add: secondFrame_def KeypointName_defs)
  note t = smooth_exponential_average[OF i p f]
  have "x ?out = 3 / 10" "y ?out = 3 / 5" using t by (simp_all add: a raw)
  moreover have "z ?out = Some (1 / 5)"
    using t[THEN conjunct2, THEN conjunct2, THEN conjunct1, rule_format, of "3 / 10" "1 / 10"]
    by (simp add: a raw)
  moreover have "confidence ?out = 4 / 5" "\<not> isVisible ?out" using t by (simp_all add: raw)
  moreover have "previousLandmarks (snd (smooth seenFirstFrame secondFrame)) NOSE = Some ?out"
    using t l by (simp add: raw)
  moreover have "x (fst (smooth seenFirstFrame secondFrame) ! 1) = 7 / 10"
    "z (fst (smooth seenFirstFrame secondFrame) ! 1) = Some (1 / 2)"
  proof -
    let ?w = "\<lparr>x = 0.6, y = 0.6, name = LEFT_WRIST, z = None, confidence = 0.7,
               isVisible = True\<rparr>"
    have i1: "Suc 0 < length secondFrame" by (simp add: secondFrame_def)
    have w: "previousLandmarks seenFirstFrame (name (secondFrame ! Suc 0)) = Some ?w"
      by (simp add: seenFirstFrame_def smooth_def new_LandmarkSmoother_def firstFrame_def
            secondFrame_def KeypointName_defs)
    have f1: "name (secondFrame ! Suc 0) \<notin> name ` set (take (Suc 0) secondFrame)"
      by (simp add: secondFrame_def KeypointName_defs)
    have raw1: "x (secondFrame ! Suc 0) = 4 / 5" "z (secondFrame ! Suc 0) = Some (1 / 2)"
      by (simp_all add: secondFrame_def)
    note t1 = smooth_exponential_average[OF i1 w f1]
    show "x (fst (smooth seenFirstFrame secondFrame) ! 1) = 7 / 10"
      using t1 by (simp add: a raw1)
    show "z (fst (smooth seenFirstFrame secondFrame) ! 1) = Some (1 / 2)"
      using t1 by (simp add: raw1)
  qed
  ultimately show ?thesis by simp
qed

subsection \<open>C5: the first sighting of a keypoint, and reset\<close>

text \<open>
  \<^bold>\<open>C5.\<close> A landmark whose name has no previous landmark in the smoother, and which
  is the first of its name in the frame, is returned by \<open>smooth\<close> as it is, with all its
  fields. A smoother just constructed has no previous landmark for any name, and
  \<open>reset\<close> leaves none, so that in the next frame
  every landmark that is the first of its name is returned as it is, and a frame with one
  entry per name at most is returned whole.
\<close>

theorem smooth_first_sighting:
  "(i < length ls \<and> previousLandmarks this (name (ls ! i)) = None \<and>
      name (ls ! i) \<notin> name ` set (take i ls) \<longrightarrow>
      fst (smooth this ls) ! i = ls ! i) \<and>
   previousLandmarks (new_LandmarkSmoother a) nm = None \<and>
   previousLandmarks (reset this) nm = None \<and>
   (i < length ls \<and> name (ls ! i) \<notin> name ` set (take i ls) \<longrightarrow>
      fst (smooth (reset this) ls) ! i = ls ! i) \<and>
   (distinct (map name ls) \<longrightarrow> fst (smooth (reset this) ls) = ls)"
proof -
  have first: "fst (smooth s ls) ! i = ls ! i"
    if "i < length ls" "previousLandmarks s (name (ls ! i)) = None"
      "name (ls ! i) \<notin> name ` set (take i ls)" for s
    using smooth_nth[OF that(1,3), of s] that(2) by (simp add: smoothOne_def)
  have cleared: "previousLandmarks (reset this) k = None" for k
    by (simp add: reset_def)
  have new: "previousLandmarks (new_LandmarkSmoother a) nm = None"
    by (simp add: new_LandmarkSmoother_def)
  show ?thesis
    using cleared new smooth_reset_passthrough[of ls this] by (auto intro!: first)
qed

text \<open>
  A new smoother returns the nose of \<open>firstFrame\<close> as it is; having seen it, the
  smoother changes the nose of \<open>secondFrame\<close>, and after \<open>reset\<close> it returns
  \<open>secondFrame\<close> as it is.
\<close>

theorem smooth_first_sighting_witness:
  "fst (smooth (new_LandmarkSmoother 0.5) firstFrame) ! 0 = firstFrame ! 0 \<and>
   fst (smooth seenFirstFrame secondFrame) ! 0 \<noteq> secondFrame ! 0 \<and>
   fst (smooth (reset seenFirstFrame) secondFrame) = secondFrame"
proof -
  have d: "distinct (map name secondFrame)"
    by (simp add: secondFrame_def KeypointName_defs)
  have i: "0 < length firstFrame \<and>
      previousLandmarks (new_LandmarkSmoother 0.5) (name (firstFrame ! 0)) = None \<and>
      name (firstFrame ! 0) \<notin> name ` set (take 0 firstFrame)"
    by (simp add: firstFrame_def new_LandmarkSmoother_def)
  have changed: "fst (smooth seenFirstFrame secondFrame) ! 0 \<noteq> secondFrame ! 0"
    by (simp add: seenFirstFrame_def smooth_def new_LandmarkSmoother_def firstFrame_def
          secondFrame_def KeypointName_defs Let_def)
  have first: "fst (smooth (new_LandmarkSmoother 0.5) firstFrame) ! 0 = firstFrame ! 0"
    using smooth_first_sighting[of 0 firstFrame "new_LandmarkSmoother 0.5"] i by blast
  have whole: "fst (smooth (reset seenFirstFrame) secondFrame) = secondFrame"
    using smooth_first_sighting[of 0 secondFrame seenFirstFrame] d by blast
  show ?thesis using first changed whole by blast
qed

subsection \<open>C6: a joint whose landmarks do not qualify\<close>

text \<open>
  \<^bold>\<open>C6.\<close> For every frame and every joint: when one of the landmarks that define the
  joint is missing from the frame, or is there only with \<open>isVisible\<close> false or with a
  confidence of 0.5 or less, the result of \<open>calculateJointAngles\<close> has no entry for the
  joint (\<open>None\<close>, which is not the value \<open>0\<close>). The function is total: nothing is
  raised.
\<close>

theorem calculateJointAngles_omits_joint:
  assumes "nm \<in> set (definingLandmarks key)"
    and "\<forall>l\<in>set ls. name l = nm \<longrightarrow> \<not> isVisible l \<or> confidence l \<le> 0.5"
  shows "calculateJointAngles ls key = None"
proof -
  from assms(2) have "getLandmark ls nm = None"
    by (simp add: getLandmark_None_iff)
  with assms(1) have "\<not> (\<forall>nm\<in>set (definingLandmarks key). getLandmark ls nm \<noteq> None)"
    by blast
  then show ?thesis
    using calculateJointAngles_present_iff[of ls key] by blast
qed

text \<open>
  With an elbow of confidence 0.4 the left elbow has no angle, and no angle is not the
  angle \<open>0\<close>.
\<close>

theorem calculateJointAngles_omits_joint_witness:
  "calculateJointAngles weakElbowArm LeftElbow = None \<and>
   calculateJointAngles weakElbowArm LeftElbow \<noteq> Some 0"
proof -
  have k: "LEFT_ELBOW \<in> set (definingLandmarks LeftElbow)" by simp
  have w: "\<forall>l\<in>set weakElbowArm. name l = LEFT_ELBOW \<longrightarrow> \<not> isVisible l \<or> confidence l \<le> 0.5"
    by (simp add: weakElbowArm_def KeypointName_defs)
  show ?thesis
    using calculateJointAngles_omits_joint[OF k w] by simp
qed

subsection \<open>C7: the visibility gate\<close>

text \<open>
  \<^bold>\<open>C7.\<close> \<open>isPersonFullyVisible\<close> holds if and only if at least five landmarks of
  the frame are critical points (nose, shoulders, hips, knees) that are visible with a
  confidence above 0.5; in a frame of the data model, which has one entry per name at
  most, that is: if and only if at least five of the seven critical points have a visible
  landmark of a confidence above 0.5 in the frame.
\<close>

theorem isPersonFullyVisible_five_of_seven:
  "(isPersonFullyVisible ls \<longleftrightarrow>
      5 \<le> length (filter (\<lambda>l. name l \<in> set criticalPoints \<and> isVisible l \<and> confidence l > 0.5) ls)) \<and>
   (distinct (map name ls) \<longrightarrow>
      (isPersonFullyVisible ls \<longleftrightarrow>
         5 \<le> card {nm \<in> set criticalPoints.
                     \<exists>l\<in>set ls. name l = nm \<and> isVisible l \<and> confidence l > 0.5}))"
  using isPersonFullyVisible_count[of ls] isPersonFullyVisible_distinct[of ls] by blast

text \<open>Exactly five qualifying critical points: true. Exactly four: false.\<close>

theorem isPersonFullyVisible_five_of_seven_witness:
  "length criticalPoints = 7 \<and>
   card {nm \<in> set criticalPoints.
           \<exists>l\<in>set fiveVisible. name l = nm \<and> isVisible l \<and> confidence l > 0.5} = 5 \<and>
   isPersonFullyVisible fiveVisible \<and>
   card {nm \<in> set criticalPoints.
           \<exists>l\<in>set fourVisible. name l = nm \<and> isVisible l \<and> confidence l > 0.5} = 4 \<and>
   \<not> isPersonFullyVisible fourVisible"
proof -
  have d5: "distinct (map name fiveVisible)" and d4: "distinct (map name fourVisible)"
    by (simp_all add: fiveVisible_def fourVisible_def KeypointName_defs)
  have s5: "{nm \<in> set criticalPoints.
           \<exists>l\<in>set fiveVisible. name l = nm \<and> isVisible l \<and> confidence l > 0.5}
        = {NOSE, LEFT_SHOULDER, RIGHT_SHOULDER, LEFT_HIP, RIGHT_HIP}"
    by (auto simp add: fiveVisible_def criticalPoints_def KeypointName_defs)
  have s4: "{nm \<in> set criticalPoints.
           \<exists>l\<in>set fourVisible. name l = nm \<and> isVisible l \<and> confidence l > 0.5}
        = {NOSE, LEFT_SHOULDER, RIGHT_SHOULDER, LEFT_HIP}"
    by (auto simp add: fourVisible_def criticalPoints_def KeypointName_defs)
  have c5: "card {NOSE, LEFT_SHOULDER, RIGHT_SHOULDER, LEFT_HIP, RIGHT_HIP} = 5"
    by (simp add: KeypointName_defs)
  have c4: "card {NOSE, LEFT_SHOULDER, RIGHT_SHOULDER, LEFT_HIP} = 4"
    by (simp add: KeypointName_defs)
  have seven: "length criticalPoints = 7" by (simp add: criticalPoints_def)
  have five: "isPersonFullyVisible fiveVisible"
    using isPersonFullyVisible_five_of_seven[of fiveVisible, THEN conjunct2, rule_format, OF d5]
    unfolding s5 c5 by simp
  have four: "\<not> isPersonFullyVisible fourVisible"
    using isPersonFullyVisible_five_of_seven[of fourVisible, THEN conjunct2, rule_format, OF d4]
    unfolding s4 c4 by simp
  show ?thesis using five four seven unfolding s5 s4 c5 c4 by simp
qed

subsection \<open>C8: range and symmetry of the angle\<close>

text \<open>
  \<^bold>\<open>C8.\<close> For any three points (degenerate or not), \<open>calculateAngle a b c\<close> lies
  between 0 and 180, and it is \<open>calculateAngle c b a\<close>.
\<close>

theorem calculateAngle_range_symmetry:
  "0 \<le> calculateAngle a b c \<and> calculateAngle a b c \<le> 180 \<and>
   calculateAngle a b c = calculateAngle c b a"
  using calculateAngle_range[of a b c] calculateAngle_sym[of a b c] by simp

text \<open>A right angle, from either side.\<close>

theorem calculateAngle_range_symmetry_witness:
  "calculateAngle \<lparr>x = 1, y = 0\<rparr> \<lparr>x = 0, y = 0\<rparr> \<lparr>x = 0, y = 1\<rparr> = 90 \<and>
   calculateAngle \<lparr>x = 0, y = 1\<rparr> \<lparr>x = 0, y = 0\<rparr> \<lparr>x = 1, y = 0\<rparr> = 90"
proof -
  have "calculateAngle \<lparr>x = 1, y = 0\<rparr> \<lparr>x = 0, y = 0\<rparr> \<lparr>x = 0, y = 1\<rparr> = 90"
    by (simp add: calculateAngle_def Math_atan2_def Math_round_def Let_def)
  then show ?thesis
    using calculateAngle_range_symmetry
      [of "\<lparr>x = 1, y = 0\<rparr>" "\<lparr>x = 0, y = 0\<rparr>" "\<lparr>x = 0, y = 1\<rparr>"]
    by simp
qed

subsection \<open>C9: whole degrees\<close>



subsection \<open>C10: the smoother of the module\<close>

text \<open>
  \<^bold>\<open>C10.\<close> The module has one smoother. \<open>getSmoother\<close> called with the factor of
  the previous call returns the reference the module holds and changes nothing. Called
  with another factor (or when the module holds no smoother) it returns a reference that
  is new in the store, to a smoother constructed with the factor and with no previous
  landmark, and the module holds this reference from then on; the reference is not the
  one the module held. \<open>applySmoothing\<close> with the factor of the previous call smooths
  with the object the module holds and updates that object; with another factor its
  output is that of a new smoother, whatever the module's smoother had accumulated, and
  the module holds the new smoother, which knows the landmarks of this one frame only.
\<close>

theorem getSmoother_singleton:
  "(smootherInstance m = Some r \<and> currentAlpha m = a \<longrightarrow> getSmoother a m = (r, m)) \<and>
   (smootherInstance m = None \<or> currentAlpha m \<noteq> a \<longrightarrow>
      fst (getSmoother a m) = length (heap m) \<and>
      smootherInstance (snd (getSmoother a m)) = Some (length (heap m)) \<and>
      currentAlpha (snd (getSmoother a m)) = a \<and>
      heap (snd (getSmoother a m)) = heap m @ [new_LandmarkSmoother a] \<and>
      previousLandmarks (heap (snd (getSmoother a m)) ! length (heap m)) = Map.empty) \<and>
   (wellFormed m \<and> currentAlpha m \<noteq> a \<longrightarrow>
      smootherInstance m \<noteq> Some (fst (getSmoother a m))) \<and>
   (enableSmoothing config \<and> smootherInstance m = Some r \<and>
      smoothingFactor config = currentAlpha m \<longrightarrow>
      applySmoothing ls config m =
        (fst (smooth (heap m ! r) ls),
         m\<lparr>heap := (heap m)[r := snd (smooth (heap m ! r) ls)]\<rparr>)) \<and>
   (enableSmoothing config \<and> smoothingFactor config \<noteq> currentAlpha m \<longrightarrow>
      applySmoothing ls config m =
        (fst (smooth (new_LandmarkSmoother (smoothingFactor config)) ls),
         m\<lparr>heap := heap m @ [snd (smooth (new_LandmarkSmoother (smoothingFactor config)) ls)],
           smootherInstance := Some (length (heap m)),
           currentAlpha := smoothingFactor config\<rparr>))"
proof -
  have same: "getSmoother a m = (r, m)"
    if "smootherInstance m = Some r" "currentAlpha m = a"
    using that by (rule getSmoother_same)
  have fresh:
    "fst (getSmoother a m) = length (heap m) \<and>
     smootherInstance (snd (getSmoother a m)) = Some (length (heap m)) \<and>
     currentAlpha (snd (getSmoother a m)) = a \<and>
     heap (snd (getSmoother a m)) = heap m @ [new_LandmarkSmoother a] \<and>
     previousLandmarks (heap (snd (getSmoother a m)) ! length (heap m)) = Map.empty"
    if "smootherInstance m = None \<or> currentAlpha m \<noteq> a"
    using getSmoother_fresh[OF that] by (simp add: new_LandmarkSmoother_def)
  have other: "smootherInstance m \<noteq> Some (fst (getSmoother a m))"
    if "wellFormed m" "currentAlpha m \<noteq> a"
    using that getSmoother_fresh[of m a]
    by (auto simp add: wellFormed_def split: option.splits)
  have shared:
    "applySmoothing ls config m =
       (fst (smooth (heap m ! r) ls), m\<lparr>heap := (heap m)[r := snd (smooth (heap m ! r) ls)]\<rparr>)"
    if "enableSmoothing config" "smootherInstance m = Some r"
      "smoothingFactor config = currentAlpha m"
    using that by (rule applySmoothing_shared)
  have changed:
    "applySmoothing ls config m =
       (fst (smooth (new_LandmarkSmoother (smoothingFactor config)) ls),
        m\<lparr>heap := heap m @ [snd (smooth (new_LandmarkSmoother (smoothingFactor config)) ls)],
          smootherInstance := Some (length (heap m)),
          currentAlpha := smoothingFactor config\<rparr>)"
    if "enableSmoothing config" "smoothingFactor config \<noteq> currentAlpha m"
    using that by (simp add: applySmoothing_changed)
  show ?thesis using same fresh other shared changed by blast
qed

text \<open>
  From the initial module: the first call constructs the smoother at reference 0; a call
  with the same factor returns reference 0 and the same module; a call with the factor 0.3
  returns the new reference 1, which is not the reference held. After \<open>firstFrame\<close>
  has been smoothed with the default configuration, \<open>secondFrame\<close> smoothed with the
  same configuration is smoothed against \<open>firstFrame\<close>, and smoothed with the factor
  changed to 0.3 it comes back as it is: the nose and wrist of \<open>firstFrame\<close> are
  forgotten.
\<close>

theorem getSmoother_singleton_witness:
  "fst (getSmoother 0.5 initialModule) = 0 \<and>
   getSmoother 0.5 (snd (getSmoother 0.5 initialModule)) =
     (0, snd (getSmoother 0.5 initialModule)) \<and>
   fst (getSmoother 0.3 (snd (getSmoother 0.5 initialModule))) = 1 \<and>
   smootherInstance (snd (getSmoother 0.5 initialModule)) \<noteq>
     Some (fst (getSmoother 0.3 (snd (getSmoother 0.5 initialModule)))) \<and>
   fst (applySmoothing secondFrame DEFAULT_POSE_CONFIG
          (snd (applySmoothing firstFrame DEFAULT_POSE_CONFIG initialModule))) =
     fst (smooth seenFirstFrame secondFrame) \<and>
   fst (applySmoothing secondFrame (DEFAULT_POSE_CONFIG\<lparr>smoothingFactor := 0.3\<rparr>)
          (snd (applySmoothing firstFrame DEFAULT_POSE_CONFIG initialModule))) = secondFrame"
proof -
  let ?m1 = "snd (getSmoother 0.5 initialModule)"
  let ?m2 = "snd (applySmoothing firstFrame DEFAULT_POSE_CONFIG initialModule)"
  let ?cfg = "DEFAULT_POSE_CONFIG\<lparr>smoothingFactor := 0.3\<rparr>"
  have m1: "smootherInstance ?m1 = Some 0 \<and> currentAlpha ?m1 = 0.5 \<and> length (heap ?m1) = 1"
    by (simp add: getSmoother_def initialModule_def)
  have m2: "currentAlpha ?m2 = 0.5"
    by (simp add: applySmoothing_def getSmoother_def initialModule_def DEFAULT_POSE_CONFIG_def
          Let_def split: prod.splits)
  have cfg: "enableSmoothing ?cfg \<and> smoothingFactor ?cfg = 0.3"
    by (simp add: DEFAULT_POSE_CONFIG_def)
  have d: "distinct (map name secondFrame)"
    by (simp add: secondFrame_def KeypointName_defs)
  have pass: "fst (smooth (new_LandmarkSmoother 0.3) secondFrame) = secondFrame"
    using smooth_reset_passthrough[OF d, of "new_LandmarkSmoother 0.3"]
    by (simp add: reset_def new_LandmarkSmoother_def)
  have i: "fst (getSmoother 0.5 initialModule) = 0"
    by (simp add: getSmoother_def initialModule_def)
  have wf: "wellFormed ?m1"
    by (simp add: wellFormed_def getSmoother_def initialModule_def)
  have held: "smootherInstance ?m2 = Some 0 \<and> heap ?m2 ! 0 = seenFirstFrame"
    by (simp add: applySmoothing_def getSmoother_def initialModule_def DEFAULT_POSE_CONFIG_def
          seenFirstFrame_def Let_def split: prod.splits)
  have dflt: "enableSmoothing DEFAULT_POSE_CONFIG \<and> smoothingFactor DEFAULT_POSE_CONFIG = 0.5"
    by (simp add: DEFAULT_POSE_CONFIG_def)
  have other: "smootherInstance ?m1 \<noteq> Some (fst (getSmoother 0.3 ?m1))"
    using getSmoother_singleton[of ?m1 0 "0.3"] wf m1 by simp
  have shared: "fst (applySmoothing secondFrame DEFAULT_POSE_CONFIG ?m2) =
      fst (smooth seenFirstFrame secondFrame)"
    using getSmoother_singleton[of ?m2 0 "0.5" DEFAULT_POSE_CONFIG secondFrame] held dflt m2
    by simp
  show ?thesis
    using getSmoother_singleton[of ?m1 0 "0.5"] getSmoother_singleton[of ?m1 0 "0.3"]
      getSmoother_singleton[of ?m2 0 "0.5" ?cfg secondFrame] m1 m2 cfg pass i other shared
    by simp
qed

end
